theory Spec2Isabelle
  imports Complex_Main "HOL-Library.Char_ord" "HOL-Library.List_Lexorder"
begin

section \<open>Tables, exceptions and the file system\<close>

text \<open>
  The module \<^verbatim>\<open>src/components/data_transformation.py\<close> reads two CSV files with pandas,
  builds a scikit-learn \<^verbatim>\<open>ColumnTransformer\<close>, fits it on the training features, transforms
  both feature tables, appends the target column with \<^verbatim>\<open>np.c_\<close> and pickles the fitted
  object.  The embedding below follows that code statement by statement.  The library
  calls it makes are given the behaviour their documentation states for the arguments
  the source passes (every other argument at its default).

  A value of dtype float64 that is not NaN is a real number or an infinity.  The order is
  the numeric one.
\<close>

datatype float64 = Finite real | Infinite bool

instantiation float64 :: linorder
begin

definition less_eq_float64 :: "float64 \<Rightarrow> float64 \<Rightarrow> bool" where
  "less_eq_float64 a b =
     (case a of
        Finite r \<Rightarrow> (case b of Finite s \<Rightarrow> r \<le> s | Infinite positive \<Rightarrow> positive)
      | Infinite positive \<Rightarrow> (case b of Finite s \<Rightarrow> \<not> positive | Infinite p \<Rightarrow> positive \<longrightarrow> p))"

definition less_float64 :: "float64 \<Rightarrow> float64 \<Rightarrow> bool" where
  "less_float64 a b = (a \<le> b \<and> \<not> b \<le> (a::float64))"

instance
proof
  fix x y z :: float64
  show "(x < y) = (x \<le> y \<and> \<not> y \<le> x)" by (simp add: less_float64_def)
  show "x \<le> x" by (cases x) (simp_all add: less_eq_float64_def)
  show "x \<le> y \<Longrightarrow> y \<le> z \<Longrightarrow> x \<le> z"
    by (cases x; cases y; cases z) (auto simp: less_eq_float64_def)
  show "x \<le> y \<Longrightarrow> y \<le> x \<Longrightarrow> x = y"
    by (cases x; cases y) (auto simp: less_eq_float64_def)
  show "x \<le> y \<or> y \<le> x"
    by (cases x; cases y) (auto simp: less_eq_float64_def)
qed

end

text \<open>
  A cell of a table is a number, a missing value (pandas reads an empty field as NaN) or
  a text.  A number is the value pandas parsed from the field: an int64 or a float64.
  An integer beyond \<open>2\<^sup>5\<^sup>3\<close> in magnitude need not be a float64; it is rounded where the
  libraries convert the column to float64.
\<close>

datatype cell = Num float64 | NaN | Str string

abbreviation Number :: "real \<Rightarrow> cell" where
  "Number r \<equiv> Num (Finite r)"

type_synonym series = "cell list"

text \<open>A DataFrame: its columns in order, each with its label.\<close>

type_synonym dataframe = "(string \<times> series) list"

fun is_Str :: "cell \<Rightarrow> bool" where
  "is_Str (Str s) = True"
| "is_Str x = False"

fun is_Inf :: "cell \<Rightarrow> bool" where
  "is_Inf (Num (Infinite positive)) = True"
| "is_Inf x = False"

text \<open>The observed (non-missing) numbers and texts of a column, in row order.\<close>

fun nums :: "series \<Rightarrow> float64 list" where
  "nums [] = []"
| "nums (Num r # xs) = r # nums xs"
| "nums (x # xs) = nums xs"

fun strs :: "series \<Rightarrow> string list" where
  "strs [] = []"
| "strs (Str s # xs) = s # strs xs"
| "strs (x # xs) = strs xs"

text \<open>
  Python exceptions as values.  \<open>CustomException\<close> is the project's wrapper
  (\<^verbatim>\<open>src/exception.py\<close>), raised as \<^verbatim>\<open>CustomException(e, sys)\<close>.
\<close>

text \<open>
  Modelled from the spec: the class \<^verbatim>\<open>CustomException\<close> is not part of the file under
  verification.  The specification describes it as a wrapped exception carrying the
  original underlying cause and the execution context captured at the point of failure.
  Here it carries the caught exception and the line of the \<^verbatim>\<open>try\<close> block whose statement
  raised it.
\<close>

datatype exn =
    FileReadError string
  | KeyError string
  | ValueError string
  | TypeError string
  | OSError string
  | MemoryError
  | NotFittedError
  | CustomException exn nat

definition bind :: "'e + 'a \<Rightarrow> ('a \<Rightarrow> 'e + 'b) \<Rightarrow> 'e + 'b" where
  "bind m f = (case m of Inl e \<Rightarrow> Inl e | Inr x \<Rightarrow> f x)"

text \<open>A loop over a list of fallible results: the first exception ends it.\<close>

fun collect :: "('e + 'a) list \<Rightarrow> 'e + 'a list" where
  "collect [] = Inr []"
| "collect (m # ms) =
     (case m of
        Inl e \<Rightarrow> Inl e
      | Inr x \<Rightarrow> (case collect ms of Inl e \<Rightarrow> Inl e | Inr xs \<Rightarrow> Inr (x # xs)))"

subsection \<open>Floating point\<close>

text \<open>
  The conversion of an integer to float64: exact up to \<open>2\<^sup>5\<^sup>3\<close> in magnitude, and beyond
  that the nearest number with 53 significant bits, a tie going to the even one.
\<close>

fun bit_length :: "nat \<Rightarrow> nat" where
  "bit_length n = (if n = 0 then 0 else Suc (bit_length (n div 2)))"

declare bit_length.simps [simp del]

definition float64_of_int :: "int \<Rightarrow> real" where
  "float64_of_int n =
     (if \<bar>n\<bar> \<le> 2 ^ 53 then of_int n
      else let m = nat \<bar>n\<bar>; k = bit_length m - 53; q = m div 2 ^ k; r = m mod 2 ^ k;
               q' = (if 2 ^ k < 2 * r \<or> (2 * r = 2 ^ k \<and> odd q) then q + 1 else q)
           in of_int (sgn n) * of_nat (q' * 2 ^ k))"

text \<open>
  A number of a table as a float64: a number that is not an integer was parsed as a
  float64 and stays as it is.
\<close>

definition as_float64 :: "real \<Rightarrow> real" where
  "as_float64 r = (if r = of_int \<lfloor>r\<rfloor> then float64_of_int \<lfloor>r\<rfloor> else r)"

text \<open>The largest finite float64.\<close>

definition max_float64 :: real where
  "max_float64 = 2 ^ 1024 - 2 ^ 971"

text \<open>
  What the model leaves open.  Python, numpy and scikit-learn compute in IEEE double
  arithmetic: the result of a sum depends on the order of the additions, every operation
  rounds, and a result too large becomes an infinity.  The model does not fix these
  results; it takes them from the runtime:

  \<^item> \<open>python_float s\<close> is Python's \<^verbatim>\<open>float(s)\<close>: \<open>None\<close> when the text is not a number
    (ValueError), NaN (\<open>Some None\<close>) or a float64;
  \<^item> \<open>np_median xs\<close> is the median that \<^verbatim>\<open>SimpleImputer\<close> computes of the observed values of
    a column;
  \<^item> \<open>np_mean sparse c\<close> and \<open>np_scale sparse c\<close> are \<^verbatim>\<open>mean_\<close> and \<^verbatim>\<open>scale_\<close> as
    \<^verbatim>\<open>StandardScaler\<close> computes them of a column (dense or sparse), NaN entries ignored;
  \<^item> \<open>np_standardize sparse with_mean (mean, scale) x\<close> is the entry that
    \<^verbatim>\<open>StandardScaler.transform\<close> computes from the entry \<open>x\<close>;
  \<^item> \<open>raised_at line\<close> is the exception, if any, that the constructor call at a line of
    \<^verbatim>\<open>get_data_transformer_object\<close> raises.  The constructors of scikit-learn only store
    their arguments; what can fail in them is the runtime (a \<^verbatim>\<open>MemoryError\<close>, say).
\<close>

record runtime =
  python_float :: "string \<Rightarrow> float64 option option"
  np_median :: "real list \<Rightarrow> float64"
  np_mean :: "bool \<Rightarrow> real option list \<Rightarrow> float64 option"
  np_scale :: "bool \<Rightarrow> real option list \<Rightarrow> float64 option"
  np_standardize :: "bool \<Rightarrow> bool \<Rightarrow> float64 option \<times> float64 option \<Rightarrow> real option \<Rightarrow> float64 option"
  raised_at :: "nat \<Rightarrow> exn option"

subsection \<open>pandas\<close>

text \<open>
  A column read by \<^verbatim>\<open>pd.read_csv\<close> has one dtype: numeric (every observed cell a
  number) or object (every observed cell a text).  A finite number of a column is at most
  the largest float64 in magnitude: a field beyond it is read as an infinity.
\<close>

definition homogeneous :: "series \<Rightarrow> bool" where
  "homogeneous c \<longleftrightarrow> nums c = [] \<or> strs c = []"

fun in_range :: "cell \<Rightarrow> bool" where
  "in_range (Num (Finite r)) = (\<bar>r\<bar> \<le> max_float64)"
| "in_range x = True"

definition n_rows :: "dataframe \<Rightarrow> nat" where
  "n_rows df = (case df of [] \<Rightarrow> 0 | (name, c) # rest \<Rightarrow> length c)"

text \<open>
  What \<^verbatim>\<open>pd.read_csv\<close> can return: at least one column, labels made unique, all columns
  of one length, every column of one dtype.
\<close>

definition wf_dataframe :: "dataframe \<Rightarrow> bool" where
  "wf_dataframe df \<longleftrightarrow>
     df \<noteq> [] \<and> distinct (map fst df) \<and>
     list_all (\<lambda>(name, c). length c = n_rows df \<and> homogeneous c \<and> list_all in_range c) df"

text \<open>\<^verbatim>\<open>df.drop(columns=names, axis='columns')\<close>: KeyError when a label is absent.\<close>

definition drop_columns :: "string list \<Rightarrow> dataframe \<Rightarrow> exn + dataframe" where
  "drop_columns names df =
     (case filter (\<lambda>n. n \<notin> set (map fst df)) names of
        [] \<Rightarrow> Inr (filter (\<lambda>(name, c). name \<notin> set names) df)
      | missing # rest \<Rightarrow> Inl (KeyError missing))"

text \<open>\<^verbatim>\<open>df[name]\<close>: KeyError when the label is absent.\<close>

definition getitem :: "dataframe \<Rightarrow> string \<Rightarrow> exn + series" where
  "getitem df name = (case map_of df name of None \<Rightarrow> Inl (KeyError name) | Some c \<Rightarrow> Inr c)"

subsection \<open>scikit-learn: input validation\<close>

text \<open>
  Arrays inside a pipeline are kept as lists of columns.  \<^verbatim>\<open>check_array\<close> refuses an array
  with no sample or no feature.  An array without columns only arises after an imputer
  dropped every column of an array that had rows.
\<close>

definition n_samples :: "'a list list \<Rightarrow> nat" where
  "n_samples X = (case X of [] \<Rightarrow> 0 | c # rest \<Rightarrow> length c)"

definition check_array :: "'a list list \<Rightarrow> exn + unit" where
  "check_array X =
     (if X = [] then Inl (ValueError ''Found array with 0 feature(s)'')
      else if n_samples X = 0 then Inl (ValueError ''Found array with 0 sample(s)'')
      else Inr ())"

text \<open>
  \<^verbatim>\<open>check_array(X, dtype=FLOAT_DTYPES)\<close> converts every cell to float64: a number is
  rounded to float64, a text goes through Python's \<^verbatim>\<open>float\<close> (the imputer re-raises
  its ValueError with the message below).  An entry of a float array is a float64 or NaN
  (\<open>None\<close>).
\<close>

fun as_float :: "runtime \<Rightarrow> cell \<Rightarrow> exn + float64 option" where
  "as_float rt (Num (Finite r)) = Inr (Some (Finite (as_float64 r)))"
| "as_float rt (Num (Infinite positive)) = Inr (Some (Infinite positive))"
| "as_float rt NaN = Inr None"
| "as_float rt (Str s) =
     (case python_float rt s of
        None \<Rightarrow> Inl (ValueError ''Cannot use median strategy with non-numeric data'')
      | Some v \<Rightarrow> Inr v)"

definition as_float_array :: "runtime \<Rightarrow> series list \<Rightarrow> exn + float64 option list list" where
  "as_float_array rt X = collect (map (\<lambda>c. collect (map (as_float rt) c)) X)"

text \<open>
  \<^verbatim>\<open>force_all_finite='allow-nan'\<close>: an infinity is refused, NaN is not.  What is left of an
  entry is a real number or NaN.
\<close>

fun is_infinite :: "float64 option \<Rightarrow> bool" where
  "is_infinite (Some (Infinite positive)) = True"
| "is_infinite x = False"

fun real_of :: "float64 option \<Rightarrow> real option" where
  "real_of (Some (Finite r)) = Some r"
| "real_of x = None"

definition assert_all_finite :: "float64 option list list \<Rightarrow> exn + real option list list" where
  "assert_all_finite F =
     (if list_ex (list_ex is_infinite) F
      then Inl (ValueError ''Input X contains infinity or a value too large for dtype(float64)'')
      else Inr (map (map real_of) F))"

text \<open>The validation of a float array: conversion, finiteness, shape, in this order.\<close>

definition validate_float :: "runtime \<Rightarrow> series list \<Rightarrow> exn + real option list list" where
  "validate_float rt X =
     bind (as_float_array rt X) (\<lambda>F.
     bind (assert_all_finite F) (\<lambda>G.
     bind (check_array G) (\<lambda>u. Inr G)))"

fun present :: "'a option list \<Rightarrow> 'a list" where
  "present [] = []"
| "present (None # xs) = present xs"
| "present (Some x # xs) = x # present xs"

text \<open>
  The most frequent value of a non-empty list; among equally frequent values the
  smallest one, as \<^verbatim>\<open>SimpleImputer\<close> breaks ties.
\<close>

definition most_frequent :: "'a::linorder list \<Rightarrow> 'a" where
  "most_frequent xs =
     (let m = fold max (map (count_list xs) xs) 0;
          ties = filter (\<lambda>x. count_list xs x = m) xs
      in fold min ties (hd ties))"

subsection \<open>scikit-learn: the transformers the source constructs\<close>

text \<open>
  \<^verbatim>\<open>SimpleImputer(strategy="median")\<close>.  The statistic of a column is the median of its
  observed values, and NaN (here \<open>None\<close>) when nothing was observed.  A column whose
  statistic is NaN is discarded by \<^verbatim>\<open>transform\<close> (the default
  \<^verbatim>\<open>keep_empty_features=False\<close>); in every other column a missing value becomes the
  statistic.
\<close>

definition SimpleImputer_median_fit :: "runtime \<Rightarrow> series list \<Rightarrow> exn + float64 option list" where
  "SimpleImputer_median_fit rt X =
     bind (validate_float rt X) (\<lambda>G.
       Inr (map (\<lambda>c. if present c = [] then None else Some (np_median rt (present c))) G))"

definition fill :: "float64 \<Rightarrow> real option \<Rightarrow> float64 option" where
  "fill m x = (case x of None \<Rightarrow> Some m | Some r \<Rightarrow> Some (Finite r))"

definition SimpleImputer_median_transform ::
    "runtime \<Rightarrow> float64 option list \<Rightarrow> series list \<Rightarrow> exn + float64 option list list" where
  "SimpleImputer_median_transform rt statistics X =
     bind (validate_float rt X) (\<lambda>G.
       if length G \<noteq> length statistics
       then Inl (ValueError ''X has a different number of features than the imputer'')
       else Inr (concat (map2 (\<lambda>s c. case s of None \<Rightarrow> [] | Some m \<Rightarrow> [map (fill m) c])
                   statistics G)))"

text \<open>
  \<^verbatim>\<open>SimpleImputer(strategy="most_frequent")\<close>.  The columns keep their dtype: the array is
  an object array when some column holds a text, and a numeric array otherwise; an
  infinity is refused in a numeric array only.  The imputer remembers the dtype it was
  fitted on, and converts what it transforms to an object array when that was object.
  The statistic of a column is its most frequent observed value (the smallest on a tie),
  NaN when nothing was observed.  Python cannot order a text against a number; a column
  read from CSV never mixes them.
\<close>

definition object_dtype :: "series list \<Rightarrow> bool" where
  "object_dtype X \<longleftrightarrow> list_ex (list_ex is_Str) X"

definition most_frequent_cell :: "series \<Rightarrow> exn + cell" where
  "most_frequent_cell c =
     (if nums c \<noteq> [] \<and> strs c \<noteq> [] then Inl (TypeError ''not supported between str and float'')
      else if strs c \<noteq> [] then Inr (Str (most_frequent (strs c)))
      else if nums c \<noteq> [] then Inr (Num (most_frequent (nums c)))
      else Inr NaN)"

definition SimpleImputer_most_frequent_fit :: "series list \<Rightarrow> exn + (cell list \<times> bool)" where
  "SimpleImputer_most_frequent_fit X =
     (if \<not> object_dtype X \<and> list_ex (list_ex is_Inf) X
      then Inl (ValueError ''Input X contains infinity or a value too large for dtype(float64)'')
      else bind (check_array X) (\<lambda>u.
           bind (collect (map most_frequent_cell X)) (\<lambda>statistics.
             Inr (statistics, object_dtype X))))"

definition fill_cell :: "cell \<Rightarrow> cell \<Rightarrow> cell" where
  "fill_cell s x = (if x = NaN then s else x)"

definition SimpleImputer_most_frequent_transform ::
    "cell list \<times> bool \<Rightarrow> series list \<Rightarrow> exn + series list" where
  "SimpleImputer_most_frequent_transform fitted_imputer X =
     (case fitted_imputer of (statistics, fit_object) \<Rightarrow>
        if \<not> fit_object \<and> \<not> object_dtype X \<and> list_ex (list_ex is_Inf) X
        then Inl (ValueError ''Input X contains infinity or a value too large for dtype(float64)'')
        else bind (check_array X) (\<lambda>u.
          if length X \<noteq> length statistics
          then Inl (ValueError ''X has a different number of features than the imputer'')
          else Inr (concat (map2 (\<lambda>s c. if s = NaN then [] else [map (fill_cell s) c])
                      statistics X))))"

text \<open>
  \<^verbatim>\<open>OneHotEncoder()\<close>: \<^verbatim>\<open>categories='auto'\<close>, \<^verbatim>\<open>handle_unknown='error'\<close>, sparse output.
  The categories of a column are its distinct values in sorted order, a missing value
  last.  \<^verbatim>\<open>transform\<close> raises on a value that is not a category of its column, and yields
  one indicator column per category otherwise: a stored one where the cell is the
  category, and no stored entry elsewhere.
\<close>

definition categories_of :: "series \<Rightarrow> exn + cell list" where
  "categories_of c =
     (if nums c \<noteq> [] \<and> strs c \<noteq> []
      then Inl (TypeError ''Encoders require their input argument must be uniformly strings or numbers'')
      else Inr (map Num (sort (remdups (nums c))) @ map Str (sort (remdups (strs c)))
                @ (if NaN \<in> set c then [NaN] else [])))"

definition OneHotEncoder_fit :: "series list \<Rightarrow> exn + cell list list" where
  "OneHotEncoder_fit X = bind (check_array X) (\<lambda>u. collect (map categories_of X))"

definition indicator :: "cell \<Rightarrow> series \<Rightarrow> float64 option option list" where
  "indicator k c = map (\<lambda>x. if x = k then Some (Some (Finite 1)) else None) c"

definition OneHotEncoder_transform ::
    "cell list list \<Rightarrow> series list \<Rightarrow> exn + float64 option option list list" where
  "OneHotEncoder_transform categories X =
     bind (check_array X) (\<lambda>u.
       if length X \<noteq> length categories
       then Inl (ValueError ''X has a different number of features than the encoder'')
       else if list_ex (\<lambda>(cats, c). list_ex (\<lambda>x. x \<notin> set cats) c) (zip categories X)
       then Inl (ValueError ''Found unknown categories'')
       else Inr (concat (map2 (\<lambda>cats c. map (\<lambda>k. indicator k c) cats) categories X)))"

text \<open>
  The output of a pipeline, as its columns: a dense array, whose entries are float64 or
  NaN, or a scipy sparse matrix, which stores some of its entries (\<open>Some\<close>) and has zero
  elsewhere.
\<close>

datatype block = Dense "float64 option list list" | Sparse "float64 option option list list"

fun is_sparse :: "block \<Rightarrow> bool" where
  "is_sparse (Dense X) = False"
| "is_sparse (Sparse X) = True"

definition entry :: "float64 option option \<Rightarrow> float64 option" where
  "entry e = (case e of None \<Rightarrow> Some (Finite 0) | Some v \<Rightarrow> v)"

fun columns :: "block \<Rightarrow> float64 option list list" where
  "columns (Dense X) = X"
| "columns (Sparse X) = map (map entry) X"

text \<open>
  \<^verbatim>\<open>StandardScaler(with_mean=...)\<close>, \<^verbatim>\<open>with_std=True\<close>.  Its input is validated as a float
  array (an infinity is refused).  The fitted parameters are the mean and the scale of
  every column; a sparse matrix cannot be centred.  \<^verbatim>\<open>transform\<close> rescales every entry
  of a dense array and every stored entry of a sparse matrix.
\<close>

definition scaler_input :: "block \<Rightarrow> exn + real option list list" where
  "scaler_input X =
     bind (assert_all_finite (columns X)) (\<lambda>G.
     bind (check_array G) (\<lambda>u. Inr G))"

definition StandardScaler_fit ::
    "runtime \<Rightarrow> bool \<Rightarrow> block \<Rightarrow> exn + (float64 option list \<times> float64 option list)" where
  "StandardScaler_fit rt with_mean X =
     bind (scaler_input X) (\<lambda>G.
       if with_mean \<and> is_sparse X
       then Inl (ValueError ''Cannot center sparse matrices'')
       else Inr (map (np_mean rt (is_sparse X)) G, map (np_scale rt (is_sparse X)) G))"

fun rescale :: "runtime \<Rightarrow> bool \<Rightarrow> (float64 option \<times> float64 option) list \<Rightarrow> block \<Rightarrow> block" where
  "rescale rt with_mean params (Dense X) =
     Dense (map2 (\<lambda>p c. map (\<lambda>x. np_standardize rt False with_mean p (real_of x)) c) params X)"
| "rescale rt with_mean params (Sparse X) =
     Sparse (map2 (\<lambda>p c. map (map_option (\<lambda>x. np_standardize rt True with_mean p (real_of x))) c)
               params X)"

definition StandardScaler_transform ::
    "runtime \<Rightarrow> bool \<Rightarrow> float64 option list \<times> float64 option list \<Rightarrow> block \<Rightarrow> exn + block" where
  "StandardScaler_transform rt with_mean params X =
     bind (scaler_input X) (\<lambda>G.
       if length G \<noteq> length (fst params)
       then Inl (ValueError ''X has a different number of features than the scaler'')
       else if with_mean \<and> is_sparse X
       then Inl (ValueError ''Cannot center sparse matrices'')
       else Inr (rescale rt with_mean (zip (fst params) (snd params)) X))"

subsection \<open>The two pipelines\<close>

text \<open>
  \<^verbatim>\<open>num_pipeline = Pipeline(steps=[("imputer", SimpleImputer(strategy="median")),
  ("scaler", StandardScaler())])\<close> and
  \<^verbatim>\<open>cat_pipeline = Pipeline(steps=[("imputer", SimpleImputer(strategy="most_frequent")),
  ("one_hot_encoder", OneHotEncoder()), ("scaler", StandardScaler(with_mean=False))])\<close>.
  A pipeline fits each step on the output of the steps before it.
\<close>

datatype pipeline = num_pipeline | cat_pipeline

datatype pipeline_state =
    num_fitted "float64 option list" "float64 option list \<times> float64 option list"
  | cat_fitted "cell list \<times> bool" "cell list list" "float64 option list \<times> float64 option list"

fun pipeline_fit_transform ::
    "runtime \<Rightarrow> pipeline \<Rightarrow> series list \<Rightarrow> exn + (pipeline_state \<times> block)" where
  "pipeline_fit_transform rt num_pipeline X =
     bind (SimpleImputer_median_fit rt X) (\<lambda>statistics.
     bind (SimpleImputer_median_transform rt statistics X) (\<lambda>X1.
     bind (StandardScaler_fit rt True (Dense X1)) (\<lambda>params.
     bind (StandardScaler_transform rt True params (Dense X1)) (\<lambda>X2.
       Inr (num_fitted statistics params, X2)))))"
| "pipeline_fit_transform rt cat_pipeline X =
     bind (SimpleImputer_most_frequent_fit X) (\<lambda>imputer.
     bind (SimpleImputer_most_frequent_transform imputer X) (\<lambda>X1.
     bind (OneHotEncoder_fit X1) (\<lambda>categories.
     bind (OneHotEncoder_transform categories X1) (\<lambda>X2.
     bind (StandardScaler_fit rt False (Sparse X2)) (\<lambda>params.
     bind (StandardScaler_transform rt False params (Sparse X2)) (\<lambda>X3.
       Inr (cat_fitted imputer categories params, X3)))))))"

fun pipeline_transform :: "runtime \<Rightarrow> pipeline_state \<Rightarrow> series list \<Rightarrow> exn + block" where
  "pipeline_transform rt (num_fitted statistics params) X =
     bind (SimpleImputer_median_transform rt statistics X) (\<lambda>X1.
       StandardScaler_transform rt True params (Dense X1))"
| "pipeline_transform rt (cat_fitted imputer categories params) X =
     bind (SimpleImputer_most_frequent_transform imputer X) (\<lambda>X1.
     bind (OneHotEncoder_transform categories X1) (\<lambda>X2.
       StandardScaler_transform rt False params (Sparse X2)))"

subsection \<open>scikit-learn: ColumnTransformer\<close>

text \<open>
  The object holds the transformers it was constructed with and, once fitted, the state
  of every pipeline and the flag \<^verbatim>\<open>sparse_output_\<close>.  The other constructor arguments are
  at their defaults: \<^verbatim>\<open>remainder='drop'\<close>, \<^verbatim>\<open>sparse_threshold=0.3\<close>.
\<close>

record column_transformer =
  transformers :: "(string \<times> pipeline \<times> string list) list"
  fitted :: "(pipeline_state list \<times> bool) option"

definition ColumnTransformer :: "(string \<times> pipeline \<times> string list) list \<Rightarrow> column_transformer" where
  "ColumnTransformer ts = \<lparr>transformers = ts, fitted = None\<rparr>"

text \<open>Columns are selected by label; a label that the table lacks is a ValueError.\<close>

definition select_columns :: "dataframe \<Rightarrow> string list \<Rightarrow> exn + series list" where
  "select_columns X names =
     collect (map (\<lambda>n. case map_of X n of
                          None \<Rightarrow> Inl (ValueError ''A given column is not a column of the dataframe'')
                        | Some c \<Rightarrow> Inr c) names)"

text \<open>
  \<^verbatim>\<open>_hstack\<close>: when some block is sparse, the stacked result is sparse exactly if its
  density (stored entries of the sparse blocks and all entries of the dense ones, over
  all entries) is below the threshold 0.3.  The decision is taken while fitting.
\<close>

fun nnz :: "block \<Rightarrow> nat" where
  "nnz (Dense X) = sum_list (map length X)"
| "nnz (Sparse X) = sum_list (map (\<lambda>c. length (filter (\<lambda>x. x \<noteq> None) c)) X)"

definition total_size :: "block \<Rightarrow> nat" where
  "total_size X = sum_list (map length (columns X))"

definition sparse_decision :: "block list \<Rightarrow> exn + bool" where
  "sparse_decision Xs =
     (if list_ex is_sparse Xs
      then (if sum_list (map total_size Xs) = 0 then Inl (ValueError ''division by zero'')
            else Inr (real (sum_list (map nnz Xs)) / real (sum_list (map total_size Xs)) < 3 / 10))
      else Inr False)"

text \<open>The feature matrix a ColumnTransformer returns, as its rows.\<close>

datatype feature_matrix = ndarray "float64 option list list" | csr_matrix "float64 option list list"

definition rows_of :: "'a list list \<Rightarrow> 'a list list" where
  "rows_of X = map (\<lambda>i. map (\<lambda>c. c ! i) X) [0..<n_samples X]"

definition hstack :: "bool \<Rightarrow> block list \<Rightarrow> feature_matrix" where
  "hstack sparse_output Xs =
     (if sparse_output then csr_matrix (rows_of (concat (map columns Xs)))
      else ndarray (rows_of (concat (map columns Xs))))"

text \<open>
  \<^verbatim>\<open>fit_transform\<close> first resolves the columns of every transformer, then fits the
  pipelines in order, each on its own columns, and stacks their outputs.  The method
  returns the object as it has become.
\<close>

definition fit_transform ::
    "runtime \<Rightarrow> column_transformer \<Rightarrow> dataframe \<Rightarrow> exn + (column_transformer \<times> feature_matrix)" where
  "fit_transform rt self X =
     bind (collect (map (\<lambda>(name, p, cols). select_columns X cols) (transformers self))) (\<lambda>Xs.
     bind (collect (map2 (\<lambda>(name, p, cols) Xi. pipeline_fit_transform rt p Xi)
                      (transformers self) Xs)) (\<lambda>res.
     bind (sparse_decision (map snd res)) (\<lambda>sparse_output.
       Inr (self\<lparr>fitted := Some (map fst res, sparse_output)\<rparr>,
            hstack sparse_output (map snd res)))))"

definition transform ::
    "runtime \<Rightarrow> column_transformer \<Rightarrow> dataframe \<Rightarrow> exn + (column_transformer \<times> feature_matrix)" where
  "transform rt self X =
     (case fitted self of
        None \<Rightarrow> Inl NotFittedError
      | Some (states, sparse_output) \<Rightarrow>
          bind (collect (map (\<lambda>(name, p, cols). select_columns X cols) (transformers self))) (\<lambda>Xs.
          bind (collect (map2 (pipeline_transform rt) states Xs)) (\<lambda>Ys.
            Inr (self, hstack sparse_output Ys))))"

subsection \<open>numpy\<close>

text \<open>
  \<^verbatim>\<open>np.c_[A, np.array(y)]\<close>.  With a dense \<open>A\<close> the one-dimensional \<open>y\<close> becomes a last
  column, and the row counts must agree.  The result has one dtype: with the float64
  entries of \<open>A\<close>, a number of \<open>y\<close> is converted to float64, and a text or a missing value
  stays as it is.  A scipy sparse matrix is not an array to numpy: it enters as a single
  object of shape (1, 1), which can only be joined with a \<open>y\<close> of length one.
\<close>

datatype elem = Val cell | Matrix_object "float64 option list list"

type_synonym array = "elem list list"

fun cell_of :: "float64 option \<Rightarrow> cell" where
  "cell_of None = NaN"
| "cell_of (Some v) = Num v"

fun to_float64 :: "cell \<Rightarrow> cell" where
  "to_float64 (Num (Finite r)) = Num (Finite (as_float64 r))"
| "to_float64 x = x"

definition np_c :: "feature_matrix \<Rightarrow> series \<Rightarrow> exn + array" where
  "np_c A y =
     (case A of
        ndarray rows \<Rightarrow>
          if length rows = length y
          then Inr (map2 (\<lambda>r t. map (\<lambda>x. Val (cell_of x)) r @ [Val (to_float64 t)]) rows y)
          else Inl (ValueError ''all the input array dimensions except for the concatenation axis must match exactly'')
      | csr_matrix rows \<Rightarrow>
          (case y of
             [t] \<Rightarrow> Inr [[Matrix_object rows, Val t]]
           | _ \<Rightarrow> Inl (ValueError ''all the input array dimensions except for the concatenation axis must match exactly'')))"

subsection \<open>Files\<close>

datatype stored_file = Csv dataframe | Pickle column_transformer | Partial_pickle

text \<open>
  The file system: the files, the paths at which a write completes, and the paths at
  which a write that fails leaves a partially written file.
\<close>

record filesystem =
  files :: "string \<Rightarrow> stored_file option"
  writable :: "string \<Rightarrow> bool"
  leaves_partial :: "string \<Rightarrow> bool"

text \<open>
  \<^verbatim>\<open>pd.read_csv(path)\<close>: the table stored at the path; an exception when the path holds no
  file, or one that is not a table pandas can return.
\<close>

definition read_csv :: "filesystem \<Rightarrow> string \<Rightarrow> exn + dataframe" where
  "read_csv fs path =
     (case files fs path of
        Some (Csv df) \<Rightarrow> if wf_dataframe df then Inr df else Inl (FileReadError path)
      | _ \<Rightarrow> Inl (FileReadError path))"

text \<open>
  Modelled from the spec: the helper \<^verbatim>\<open>save_object\<close> of \<^verbatim>\<open>src/utils.py\<close> is not part of the
  file under verification.  The specification describes it as the generic
  object-serialization helper (object to bytes on disk), names serialization failure as
  one of the failures of the driver, and says of a failure before the full content is
  written that a partially written file may remain.  Here it stores the object at the
  path when the write completes; otherwise it raises, and the path holds what it held
  before or a partially written file.
\<close>

definition save_object ::
    "filesystem \<Rightarrow> string \<Rightarrow> column_transformer \<Rightarrow> (exn + unit) \<times> filesystem" where
  "save_object fs file_path obj =
     (if writable fs file_path
      then (Inr (), fs\<lparr>files := (files fs)(file_path \<mapsto> Pickle obj)\<rparr>)
      else (Inl (OSError file_path),
            if leaves_partial fs file_path
            then fs\<lparr>files := (files fs)(file_path \<mapsto> Partial_pickle)\<rparr>
            else fs))"

text \<open>\<^verbatim>\<open>os.path.join\<close> of two components, on a POSIX system.\<close>

definition os_path_join :: "string \<Rightarrow> string \<Rightarrow> string" where
  "os_path_join a b =
     (if b \<noteq> [] \<and> hd b = CHR ''/'' then b
      else if a = [] \<or> last a = CHR ''/'' then a @ b
      else a @ ''/'' @ b)"

section \<open>The module data_transformation\<close>

text \<open>
  A statement of a \<^verbatim>\<open>try\<close> block is tagged with its first line, and
  \<^verbatim>\<open>except Exception as e: raise CustomException(e, sys)\<close> wraps whatever the block raised.
\<close>

definition at_line :: "nat \<Rightarrow> exn + 'a \<Rightarrow> (exn \<times> nat) + 'a" where
  "at_line line m = (case m of Inl e \<Rightarrow> Inl (e, line) | Inr x \<Rightarrow> Inr x)"

definition try_except :: "(exn \<times> nat) + 'a \<Rightarrow> exn + 'a" where
  "try_except body = (case body of Inl (e, line) \<Rightarrow> Inl (CustomException e line) | Inr x \<Rightarrow> Inr x)"

text \<open>\<^verbatim>\<open>DataTransformationConfig.preprocessor_obj_file_path\<close>.\<close>

definition preprocessor_obj_file_path :: string where
  "preprocessor_obj_file_path = os_path_join ''artifacts'' ''preprocessor.pkl''"

definition numerical_columns :: "string list" where
  "numerical_columns = [''writing_score'', ''reading_score'']"

definition categorical_columns :: "string list" where
  "categorical_columns =
     [''gender'', ''race_ethnicity'', ''parental_level_of_education'', ''lunch'',
      ''test_preparation_course'']"

definition target_column_name :: string where
  "target_column_name = ''math_score''"

text \<open>
  A constructor call: its value, unless the runtime raises at its line.
\<close>

definition construct :: "runtime \<Rightarrow> nat \<Rightarrow> 'a \<Rightarrow> (exn \<times> nat) + 'a" where
  "construct rt line v = at_line line (case raised_at rt line of None \<Rightarrow> Inr v | Some e \<Rightarrow> Inl e)"

text \<open>
  \<^verbatim>\<open>get_data_transformer_object\<close>: the two pipelines (lines 37 and 44) and the
  ColumnTransformer over them (line 60), inside \<^verbatim>\<open>try\<close>.  Logging is not modelled.
\<close>

definition get_data_transformer_object :: "runtime \<Rightarrow> exn + column_transformer" where
  "get_data_transformer_object rt =
     try_except
       (bind (construct rt 37 num_pipeline) (\<lambda>num_pipeline.
        bind (construct rt 44 cat_pipeline) (\<lambda>cat_pipeline.
        bind (construct rt 60 (ColumnTransformer
               [(''num_pipeline'', num_pipeline, numerical_columns),
                (''cat_pipeline'', cat_pipeline, categorical_columns)])) (\<lambda>preprocessor.
          Inr preprocessor))))"

text \<open>
  The \<^verbatim>\<open>try\<close> block of \<^verbatim>\<open>initiate_data_transformation\<close> up to the two arrays.
\<close>

definition transformation_steps ::
    "runtime \<Rightarrow> filesystem \<Rightarrow> string \<Rightarrow> string \<Rightarrow>
     (exn \<times> nat) + (array \<times> array \<times> column_transformer)" where
  "transformation_steps rt fs train_path test_path =
     bind (at_line 76 (read_csv fs train_path)) (\<lambda>train_df.
     bind (at_line 77 (read_csv fs test_path)) (\<lambda>test_df.
     bind (at_line 83 (get_data_transformer_object rt)) (\<lambda>preprocessor_obj.
     bind (at_line 88 (drop_columns [target_column_name] train_df)) (\<lambda>input_feature_train_df.
     bind (at_line 89 (getitem train_df target_column_name)) (\<lambda>target_feature_train_df.
     bind (at_line 91 (drop_columns [target_column_name] test_df)) (\<lambda>input_feature_test_df.
     bind (at_line 92 (getitem test_df target_column_name)) (\<lambda>target_feature_test_df.
     bind (at_line 96 (fit_transform rt preprocessor_obj input_feature_train_df))
       (\<lambda>(preprocessor_obj, input_feature_train_arr).
     bind (at_line 97 (transform rt preprocessor_obj input_feature_test_df))
       (\<lambda>(preprocessor_obj, input_feature_test_arr).
     bind (at_line 99 (np_c input_feature_train_arr target_feature_train_df)) (\<lambda>train_arr.
     bind (at_line 103 (np_c input_feature_test_arr target_feature_test_df)) (\<lambda>test_arr.
       Inr (train_arr, test_arr, preprocessor_obj))))))))))))"

text \<open>
  The whole \<^verbatim>\<open>try\<close> block: the steps, then \<^verbatim>\<open>save_object\<close> (line 107) and the returned
  triple.  The result comes with the file system as the block leaves it.
\<close>

definition try_block ::
    "runtime \<Rightarrow> filesystem \<Rightarrow> string \<Rightarrow> string \<Rightarrow>
     ((exn \<times> nat) + (array \<times> array \<times> string)) \<times> filesystem" where
  "try_block rt fs train_path test_path =
     (case transformation_steps rt fs train_path test_path of
        Inl failure \<Rightarrow> (Inl failure, fs)
      | Inr (train_arr, test_arr, preprocessor_obj) \<Rightarrow>
          (case save_object fs preprocessor_obj_file_path preprocessor_obj of
             (saved, fs') \<Rightarrow>
               (bind (at_line 107 saved) (\<lambda>u.
                  Inr (train_arr, test_arr, preprocessor_obj_file_path)), fs')))"

text \<open>
  \<^verbatim>\<open>initiate_data_transformation\<close>: the block, and the \<^verbatim>\<open>except\<close> clause of lines 120 and
  121.
\<close>

definition initiate_data_transformation ::
    "runtime \<Rightarrow> filesystem \<Rightarrow> string \<Rightarrow> string \<Rightarrow>
     (exn + (array \<times> array \<times> string)) \<times> filesystem" where
  "initiate_data_transformation rt fs train_path test_path =
     (case try_block rt fs train_path test_path of
        (result, fs') \<Rightarrow> (try_except result, fs'))"

section \<open>What the fitted preprocessor computes\<close>

text \<open>
  The definitions of this section describe the statistics and the output of the two
  branches directly, column by column.  They are used to state the properties below,
  which relate them to the code above.
\<close>

text \<open>
  The unfitted preprocessor that \<^verbatim>\<open>get_data_transformer_object\<close> constructs.
\<close>

definition preprocessor :: column_transformer where
  "preprocessor =
     ColumnTransformer
       [(''num_pipeline'', num_pipeline, numerical_columns),
        (''cat_pipeline'', cat_pipeline, categorical_columns)]"

text \<open>
  The observed values of a column: its cells that are not missing.
\<close>

definition observed :: "series \<Rightarrow> cell list" where
  "observed c = filter (\<lambda>x. x \<noteq> NaN) c"

text \<open>
  The numeric branch.  A cell as a float64 (NaN for a missing value and for a text that
  Python does not read as a number), and the columns that pass the validation of a float
  array: every text is read as a number by Python and no entry is infinite.
\<close>

fun to_float :: "runtime \<Rightarrow> cell \<Rightarrow> float64 option" where
  "to_float rt (Num (Finite r)) = Some (Finite (as_float64 r))"
| "to_float rt (Num (Infinite positive)) = Some (Infinite positive)"
| "to_float rt NaN = None"
| "to_float rt (Str s) = (case python_float rt s of None \<Rightarrow> None | Some v \<Rightarrow> v)"

fun convertible :: "runtime \<Rightarrow> cell \<Rightarrow> bool" where
  "convertible rt (Str s) = (python_float rt s \<noteq> None)"
| "convertible rt x = True"

definition numeric :: "runtime \<Rightarrow> series \<Rightarrow> bool" where
  "numeric rt c \<longleftrightarrow> list_all (\<lambda>x. convertible rt x \<and> \<not> is_infinite (to_float rt x)) c"

text \<open>
  The observed values of a score column as float64, in row order; the median of the
  training column; the column of a table with that median in place of a missing value;
  and a column standardized with the mean and the scale of another.
\<close>

definition scores :: "runtime \<Rightarrow> series \<Rightarrow> real list" where
  "scores rt c = present (map (\<lambda>x. real_of (to_float rt x)) c)"

definition training_median :: "runtime \<Rightarrow> series \<Rightarrow> float64" where
  "training_median rt t = np_median rt (scores rt t)"

definition impute_median :: "runtime \<Rightarrow> series \<Rightarrow> series \<Rightarrow> float64 option list" where
  "impute_median rt t x = map (\<lambda>v. fill (training_median rt t) (real_of (to_float rt v))) x"

definition standardized ::
    "runtime \<Rightarrow> float64 option list \<Rightarrow> float64 option list \<Rightarrow> float64 option list" where
  "standardized rt z y =
     map (\<lambda>v. np_standardize rt False True
                 (np_mean rt False (map real_of z), np_scale rt False (map real_of z)) (real_of v)) y"

text \<open>
  The output columns of the numeric branch for one input column: none when the training
  column has no observed value, one otherwise.
\<close>

definition numeric_feature :: "runtime \<Rightarrow> series \<Rightarrow> series \<Rightarrow> float64 option list list" where
  "numeric_feature rt t x =
     (if scores rt t = [] then []
      else [standardized rt (impute_median rt t t) (impute_median rt t x)])"

text \<open>
  The statistics and the output of the median imputer on a list of columns.
\<close>

definition median_statistic :: "runtime \<Rightarrow> series \<Rightarrow> float64 option" where
  "median_statistic rt t = (if scores rt t = [] then None else Some (training_median rt t))"

definition imputed_columns :: "runtime \<Rightarrow> series list \<Rightarrow> series list \<Rightarrow> float64 option list list" where
  "imputed_columns rt T X =
     concat (map2 (\<lambda>t x. if scores rt t = [] then [] else [impute_median rt t x]) T X)"

text \<open>
  The imputed columns hold no infinity: the condition under which the scaler accepts them.
\<close>

definition all_finite :: "float64 option list list \<Rightarrow> bool" where
  "all_finite F \<longleftrightarrow> \<not> list_ex (list_ex is_infinite) F"

text \<open>
  The parameters that the scaler fits on the columns \<open>Z\<close>, dense or sparse.
\<close>

definition scaler_params ::
    "runtime \<Rightarrow> bool \<Rightarrow> float64 option list list \<Rightarrow> float64 option list \<times> float64 option list" where
  "scaler_params rt sparse Z =
     (map (\<lambda>z. np_mean rt sparse (map real_of z)) Z, map (\<lambda>z. np_scale rt sparse (map real_of z)) Z)"

text \<open>
  A column of a sparse matrix rescaled with the mean and the scale of another, without
  centring: only the stored entries change.
\<close>

definition scaled ::
    "runtime \<Rightarrow> float64 option option list \<Rightarrow> float64 option option list \<Rightarrow>
     float64 option option list" where
  "scaled rt z y =
     map (map_option (\<lambda>v. np_standardize rt True False
            (np_mean rt True (map (\<lambda>e. real_of (entry e)) z),
             np_scale rt True (map (\<lambda>e. real_of (entry e)) z)) (real_of v))) y"

text \<open>
  The state of the numeric pipeline fitted on the columns \<open>T\<close>.
\<close>

definition num_state :: "runtime \<Rightarrow> series list \<Rightarrow> pipeline_state" where
  "num_state rt T =
     num_fitted (map (median_statistic rt) T) (scaler_params rt False (imputed_columns rt T T))"

text \<open>
  The categorical branch: the most frequent observed training value of a column, the
  column of a table with that value in place of a missing one, and the categories (the
  distinct observed training values in sorted order).
\<close>

definition training_mode :: "series \<Rightarrow> cell" where
  "training_mode t =
     (if strs t \<noteq> [] then Str (most_frequent (strs t)) else Num (most_frequent (nums t)))"

definition impute_mode :: "series \<Rightarrow> series \<Rightarrow> series" where
  "impute_mode t x = map (\<lambda>v. if v = NaN then training_mode t else v) x"

definition training_categories :: "series \<Rightarrow> cell list" where
  "training_categories t = map Num (sort (remdups (nums t))) @ map Str (sort (remdups (strs t)))"

text \<open>
  The output columns of the categorical branch for one input column: one per category.
\<close>

definition categorical_feature ::
    "runtime \<Rightarrow> series \<Rightarrow> series \<Rightarrow> float64 option option list list" where
  "categorical_feature rt t x =
     (if observed t = [] then []
      else map (\<lambda>k. scaled rt (indicator k (impute_mode t t)) (indicator k (impute_mode t x)))
             (training_categories t))"

text \<open>
  The statistics and the output of the most-frequent imputer, the output of the
  encoder, and the conditions under which the imputer and the encoder accept the columns
  \<open>X\<close> after fitting on \<open>T\<close>: an infinity is refused unless one of the two arrays is an
  object array, and every observed value must be a category.
\<close>

definition mode_statistic :: "series \<Rightarrow> cell" where
  "mode_statistic t = (if observed t = [] then NaN else training_mode t)"

definition mode_imputed :: "series list \<Rightarrow> series list \<Rightarrow> series list" where
  "mode_imputed T X =
     concat (map2 (\<lambda>t x. if observed t = [] then [] else [impute_mode t x]) T X)"

definition encoded :: "series list \<Rightarrow> series list \<Rightarrow> float64 option option list list" where
  "encoded T X =
     concat (map2 (\<lambda>t x. if observed t = [] then []
                          else map (\<lambda>k. indicator k (impute_mode t x)) (training_categories t)) T X)"

definition accepts_infinity :: "series list \<Rightarrow> series list \<Rightarrow> bool" where
  "accepts_infinity T X \<longleftrightarrow> object_dtype T \<or> object_dtype X \<or> \<not> list_ex (list_ex is_Inf) X"

definition known_categories :: "series list \<Rightarrow> series list \<Rightarrow> bool" where
  "known_categories T X \<longleftrightarrow>
     list_all (\<lambda>(t, x). observed t = [] \<or> set (observed x) \<subseteq> set (observed t)) (zip T X)"

text \<open>
  The state of the categorical pipeline fitted on the columns \<open>T\<close>.
\<close>

definition cat_state :: "runtime \<Rightarrow> series list \<Rightarrow> pipeline_state" where
  "cat_state rt T =
     cat_fitted (map mode_statistic T, object_dtype T)
       (map training_categories (filter (\<lambda>t. observed t \<noteq> []) T))
       (scaler_params rt True (map (map entry) (encoded T T)))"

text \<open>
  The two blocks that the preprocessor fitted on the training columns \<open>Tn\<close> and \<open>Tc\<close>
  stacks for the columns \<open>Xn\<close> and \<open>Xc\<close> of a table, and the fitted object itself.
\<close>

definition feature_blocks ::
    "runtime \<Rightarrow> series list \<Rightarrow> series list \<Rightarrow> series list \<Rightarrow> series list \<Rightarrow> block list" where
  "feature_blocks rt Tn Tc Xn Xc =
     [Dense (concat (map2 (numeric_feature rt) Tn Xn)),
      Sparse (concat (map2 (categorical_feature rt) Tc Xc))]"

definition fitted_on :: "runtime \<Rightarrow> series list \<Rightarrow> series list \<Rightarrow> bool \<Rightarrow> column_transformer" where
  "fitted_on rt Tn Tc sparse_output =
     \<lparr>transformers =
        [(''num_pipeline'', num_pipeline, numerical_columns),
         (''cat_pipeline'', cat_pipeline, categorical_columns)],
      fitted = Some ([num_state rt Tn, cat_state rt Tc], sparse_output)\<rparr>"

text \<open>
  The rows of a feature matrix, and columns that all have \<open>n\<close> entries.
\<close>

fun rows :: "feature_matrix \<Rightarrow> float64 option list list" where
  "rows (ndarray M) = M"
| "rows (csr_matrix M) = M"

definition rectangular :: "nat \<Rightarrow> 'a list list \<Rightarrow> bool" where
  "rectangular n X \<longleftrightarrow> list_all (\<lambda>c. length c = n) X"

text \<open>
  All feature columns of a table, and the rows of a dense matrix with the target appended.
\<close>

definition feature_columns ::
    "runtime \<Rightarrow> series list \<Rightarrow> series list \<Rightarrow> series list \<Rightarrow> series list \<Rightarrow>
     float64 option list list" where
  "feature_columns rt Tn Tc Xn Xc =
     concat (map2 (numeric_feature rt) Tn Xn) @
     map (map entry) (concat (map2 (categorical_feature rt) Tc Xc))"

definition with_target :: "float64 option list list \<Rightarrow> series \<Rightarrow> array" where
  "with_target M y = map2 (\<lambda>r t. map (\<lambda>x. Val (cell_of x)) r @ [Val (to_float64 t)]) M y"

text \<open>
  The conditions under which the preprocessor can be fitted on the score columns \<open>Tn\<close>
  and the categorical columns \<open>Tc\<close> of a table with at least one row: the score columns
  are numeric, one of them has an observed value, the imputed score columns hold no
  infinity (a median can overflow), the categorical columns pass the imputer's check and
  one of them has an observed value.
\<close>

definition fit_conditions :: "runtime \<Rightarrow> series list \<Rightarrow> series list \<Rightarrow> bool" where
  "fit_conditions rt Tn Tc \<longleftrightarrow>
     list_all (numeric rt) Tn \<and> list_ex (\<lambda>t. scores rt t \<noteq> []) Tn \<and>
     all_finite (imputed_columns rt Tn Tn) \<and>
     accepts_infinity Tc Tc \<and> list_ex (\<lambda>t. observed t \<noteq> []) Tc"

text \<open>
  The conditions under which the preprocessor fitted on \<open>Tn\<close> and \<open>Tc\<close> transforms the
  columns \<open>Xn\<close> and \<open>Xc\<close> of a table with at least one row.
\<close>

definition transform_conditions ::
    "runtime \<Rightarrow> series list \<Rightarrow> series list \<Rightarrow> series list \<Rightarrow> series list \<Rightarrow> bool" where
  "transform_conditions rt Tn Tc Xn Xc \<longleftrightarrow>
     list_all (numeric rt) Xn \<and> all_finite (imputed_columns rt Tn Xn) \<and>
     accepts_infinity Tc Xc \<and> known_categories Tc Xc"

text \<open>
  The stacked features are dense: with \<open>q\<close> score columns and \<open>c\<close> categorical columns
  kept and \<open>K\<close> categories in all, the density \<open>(q + c) / (q + K)\<close> is at least 0.3.
\<close>

definition dense_output :: "runtime \<Rightarrow> series list \<Rightarrow> series list \<Rightarrow> bool" where
  "dense_output rt Tn Tc \<longleftrightarrow>
     3 * (length (filter (\<lambda>t. scores rt t \<noteq> []) Tn) + (\<Sum>t\<leftarrow>Tc. card (set (observed t))))
     \<le> 10 * (length (filter (\<lambda>t. scores rt t \<noteq> []) Tn) +
             length (filter (\<lambda>t. observed t \<noteq> []) Tc))"

text \<open>
  Exact arithmetic: the median, the mean, the population variance and the scale (the
  standard deviation, and 1 for a constant column) of a list of real numbers.
\<close>

definition median :: "real list \<Rightarrow> real" where
  "median xs =
     (let s = sort xs; n = length s
      in if even n then (s ! (n div 2 - 1) + s ! (n div 2)) / 2 else s ! (n div 2))"

definition mean :: "real list \<Rightarrow> real" where
  "mean xs = sum_list xs / real (length xs)"

definition variance :: "real list \<Rightarrow> real" where
  "variance xs = sum_list (map (\<lambda>x. (x - mean xs)\<^sup>2) xs) / real (length xs)"

definition exact_scale :: "real list \<Rightarrow> real" where
  "exact_scale xs = (if variance xs = 0 then 1 else sqrt (variance xs))"

fun exact_standardize ::
    "bool \<Rightarrow> float64 option \<times> float64 option \<Rightarrow> real option \<Rightarrow> float64 option" where
  "exact_standardize with_mean (Some (Finite m), Some (Finite s)) (Some x) =
     Some (Finite ((if with_mean then x - m else x) / s))"
| "exact_standardize with_mean p x = None"

text \<open>
  The runtime of the examples.  Its arithmetic is exact, which is what IEEE arithmetic
  gives on the numbers of the examples (small integers and halves).  The one text that
  the examples ask Python to read as a number is \<^verbatim>\<open>4_0\<close>, which \<^verbatim>\<open>float\<close> reads as 40.  No
  constructor fails.
\<close>

definition example_runtime :: runtime where
  "example_runtime =
     \<lparr>python_float = (\<lambda>s. if s = ''4_0'' then Some (Some (Finite 40)) else None),
      np_median = (\<lambda>xs. Finite (median xs)),
      np_mean = (\<lambda>sparse c. if present c = [] then None else Some (Finite (mean (present c)))),
      np_scale = (\<lambda>sparse c. if present c = [] then None
                               else Some (Finite (exact_scale (present c)))),
      np_standardize = (\<lambda>sparse. exact_standardize),
      raised_at = (\<lambda>line. None)\<rparr>"

text \<open>
  Example tables, used to instantiate the properties: a training table of two rows
  and a test table of one row, with a missing category and a missing score, and what
  the code computes from them.
\<close>

abbreviation Float :: "real \<Rightarrow> float64 option" where
  "Float r \<equiv> Some (Finite r)"

definition example_train :: dataframe where
  "example_train =
     [(''gender'', [Str ''female'', Str ''male'']),
      (''race_ethnicity'', [Str ''group A'', Str ''group B'']),
      (''parental_level_of_education'', [Str ''high school'', NaN]),
      (''lunch'', [Str ''standard'', Str ''standard'']),
      (''test_preparation_course'', [Str ''none'', Str ''completed'']),
      (''math_score'', [Number 5, Number 7]),
      (''reading_score'', [Number 2, Number 4]),
      (''writing_score'', [Number 1, Number 3])]"

definition example_test :: dataframe where
  "example_test =
     [(''gender'', [Str ''male'']),
      (''race_ethnicity'', [Str ''group A'']),
      (''parental_level_of_education'', [NaN]),
      (''lunch'', [Str ''standard'']),
      (''test_preparation_course'', [Str ''none'']),
      (''math_score'', [Number 6]),
      (''reading_score'', [NaN]),
      (''writing_score'', [Number 2])]"

definition example_fs :: filesystem where
  "example_fs =
     \<lparr>files = [''train.csv'' \<mapsto> Csv example_train, ''test.csv'' \<mapsto> Csv example_test],
      writable = (\<lambda>p. True), leaves_partial = (\<lambda>p. False)\<rparr>"

definition example_fitted :: column_transformer where
  "example_fitted =
     \<lparr>transformers =
        [(''num_pipeline'', num_pipeline, [''writing_score'', ''reading_score'']),
         (''cat_pipeline'', cat_pipeline,
          [''gender'', ''race_ethnicity'', ''parental_level_of_education'', ''lunch'',
           ''test_preparation_course''])],
      fitted =
        Some ([num_fitted [Float 2, Float 3] ([Float 2, Float 3], [Float 1, Float 1]),
               cat_fitted
                 ([Str ''female'', Str ''group A'', Str ''high school'', Str ''standard'',
                   Str ''completed''], True)
                 [[Str ''female'', Str ''male''], [Str ''group A'', Str ''group B''],
                  [Str ''high school''], [Str ''standard''], [Str ''completed'', Str ''none'']]
                 (map Float [1 / 2, 1 / 2, 1 / 2, 1 / 2, 1, 1, 1 / 2, 1 / 2],
                  map Float [1 / 2, 1 / 2, 1 / 2, 1 / 2, 1, 1, 1 / 2, 1 / 2])],
              False)\<rparr>"

definition example_train_arr :: array where
  "example_train_arr =
     [map (\<lambda>x. Val (Number x)) [- 1, - 1, 2, 0, 2, 0, 1, 1, 0, 2, 5],
      map (\<lambda>x. Val (Number x)) [1, 1, 0, 2, 0, 2, 1, 1, 2, 0, 7]]"

definition example_test_arr :: array where
  "example_test_arr = [map (\<lambda>x. Val (Number x)) [0, 0, 0, 2, 2, 0, 1, 1, 0, 2, 6]]"

text \<open>
  A file system without files, and a second test table for the same training table.
\<close>

definition empty_fs :: filesystem where
  "empty_fs = \<lparr>files = Map.empty, writable = (\<lambda>p. True), leaves_partial = (\<lambda>p. False)\<rparr>"

definition example_test2 :: dataframe where
  "example_test2 =
     [(''gender'', [Str ''female'', Str ''male'']),
      (''race_ethnicity'', [Str ''group B'', NaN]),
      (''parental_level_of_education'', [Str ''high school'', Str ''high school'']),
      (''lunch'', [NaN, Str ''standard'']),
      (''test_preparation_course'', [Str ''completed'', Str ''none'']),
      (''math_score'', [Number 9, Number 8]),
      (''reading_score'', [Number 100, Number 3]),
      (''writing_score'', [Number 50, NaN])]"

definition example_fs2 :: filesystem where
  "example_fs2 =
     \<lparr>files = [''train.csv'' \<mapsto> Csv example_train, ''test.csv'' \<mapsto> Csv example_test2],
      writable = (\<lambda>p. True), leaves_partial = (\<lambda>p. False)\<rparr>"

definition example_test_arr2 :: array where
  "example_test_arr2 =
     [map (\<lambda>x. Val (Number x)) [48, 97, 2, 0, 0, 2, 1, 1, 2, 0, 9],
      map (\<lambda>x. Val (Number x)) [0, 0, 0, 2, 2, 0, 1, 1, 0, 2, 8]]"

text \<open>
  The features of the example tables, their transformed matrices, and the categorical
  columns of the example training table.
\<close>

definition example_test_features :: dataframe where
  "example_test_features = filter (\<lambda>(name, c). name \<noteq> ''math_score'') example_test"

definition example_test_matrix :: feature_matrix where
  "example_test_matrix = ndarray [map Float [0, 0, 0, 2, 2, 0, 1, 1, 0, 2]]"

definition example_train_features :: dataframe where
  "example_train_features = filter (\<lambda>(name, c). name \<noteq> ''math_score'') example_train"

definition example_train_matrix :: feature_matrix where
  "example_train_matrix =
     ndarray [map Float [- 1, - 1, 2, 0, 2, 0, 1, 1, 0, 2], map Float [1, 1, 0, 2, 0, 2, 1, 1, 2, 0]]"

definition example_categorical :: "series list" where
  "example_categorical =
     [[Str ''female'', Str ''male''], [Str ''group A'', Str ''group B''],
      [Str ''high school'', NaN], [Str ''standard'', Str ''standard''],
      [Str ''none'', Str ''completed'']]"

text \<open>
  The example training table without any writing score, and what the code computes from it.
\<close>

definition missing_score_train :: dataframe where
  "missing_score_train =
     [(''gender'', [Str ''female'', Str ''male'']),
      (''race_ethnicity'', [Str ''group A'', Str ''group B'']),
      (''parental_level_of_education'', [Str ''high school'', NaN]),
      (''lunch'', [Str ''standard'', Str ''standard'']),
      (''test_preparation_course'', [Str ''none'', Str ''completed'']),
      (''math_score'', [Number 5, Number 7]),
      (''reading_score'', [Number 2, Number 4]),
      (''writing_score'', [NaN, NaN])]"

definition missing_score_fs :: filesystem where
  "missing_score_fs =
     \<lparr>files = [''train.csv'' \<mapsto> Csv missing_score_train, ''test.csv'' \<mapsto> Csv example_test],
      writable = (\<lambda>p. True), leaves_partial = (\<lambda>p. False)\<rparr>"

definition missing_score_train_arr :: array where
  "missing_score_train_arr =
     [map (\<lambda>x. Val (Number x)) [- 1, 2, 0, 2, 0, 1, 1, 0, 2, 5],
      map (\<lambda>x. Val (Number x)) [1, 0, 2, 0, 2, 1, 1, 2, 0, 7]]"

definition missing_score_test_arr :: array where
  "missing_score_test_arr = [map (\<lambda>x. Val (Number x)) [0, 0, 2, 2, 0, 1, 1, 0, 2, 6]]"

text \<open>
  The example training table without any lunch value, and what the code computes from it.
\<close>

definition missing_lunch_train :: dataframe where
  "missing_lunch_train =
     [(''gender'', [Str ''female'', Str ''male'']),
      (''race_ethnicity'', [Str ''group A'', Str ''group B'']),
      (''parental_level_of_education'', [Str ''high school'', NaN]),
      (''lunch'', [NaN, NaN]),
      (''test_preparation_course'', [Str ''none'', Str ''completed'']),
      (''math_score'', [Number 5, Number 7]),
      (''reading_score'', [Number 2, Number 4]),
      (''writing_score'', [Number 1, Number 3])]"

definition missing_lunch_fs :: filesystem where
  "missing_lunch_fs =
     \<lparr>files = [''train.csv'' \<mapsto> Csv missing_lunch_train, ''test.csv'' \<mapsto> Csv example_test],
      writable = (\<lambda>p. True), leaves_partial = (\<lambda>p. False)\<rparr>"

definition missing_lunch_train_arr :: array where
  "missing_lunch_train_arr =
     [map (\<lambda>x. Val (Number x)) [- 1, - 1, 2, 0, 2, 0, 1, 0, 2, 5],
      map (\<lambda>x. Val (Number x)) [1, 1, 0, 2, 0, 2, 1, 2, 0, 7]]"

definition missing_lunch_test_arr :: array where
  "missing_lunch_test_arr = [map (\<lambda>x. Val (Number x)) [0, 0, 0, 2, 2, 0, 1, 0, 2, 6]]"

text \<open>
  The example training table with a target beyond \<open>2\<^sup>5\<^sup>3\<close> in its first row: the integer
  \<open>2\<^sup>5\<^sup>3 + 1\<close>, which is not a float64.
\<close>

definition large_target_train :: dataframe where
  "large_target_train =
     [(''gender'', [Str ''female'', Str ''male'']),
      (''race_ethnicity'', [Str ''group A'', Str ''group B'']),
      (''parental_level_of_education'', [Str ''high school'', NaN]),
      (''lunch'', [Str ''standard'', Str ''standard'']),
      (''test_preparation_course'', [Str ''none'', Str ''completed'']),
      (''math_score'', [Number 9007199254740993, Number 7]),
      (''reading_score'', [Number 2, Number 4]),
      (''writing_score'', [Number 1, Number 3])]"

definition large_target_fs :: filesystem where
  "large_target_fs =
     \<lparr>files = [''train.csv'' \<mapsto> Csv large_target_train, ''test.csv'' \<mapsto> Csv example_test],
      writable = (\<lambda>p. True), leaves_partial = (\<lambda>p. False)\<rparr>"

definition large_target_train_arr :: array where
  "large_target_train_arr =
     [map (\<lambda>x. Val (Number x)) [- 1, - 1, 2, 0, 2, 0, 1, 1, 0, 2, 9007199254740992],
      map (\<lambda>x. Val (Number x)) [1, 1, 0, 2, 0, 2, 1, 1, 2, 0, 7]]"

text \<open>
  The example training table with its writing scores written as the text \<^verbatim>\<open>4_0\<close>.
\<close>

definition text_score_train :: dataframe where
  "text_score_train =
     [(''gender'', [Str ''female'', Str ''male'']),
      (''race_ethnicity'', [Str ''group A'', Str ''group B'']),
      (''parental_level_of_education'', [Str ''high school'', NaN]),
      (''lunch'', [Str ''standard'', Str ''standard'']),
      (''test_preparation_course'', [Str ''none'', Str ''completed'']),
      (''math_score'', [Number 5, Number 7]),
      (''reading_score'', [Number 2, Number 4]),
      (''writing_score'', [Str ''4_0'', Str ''4_0''])]"

definition text_score_fs :: filesystem where
  "text_score_fs =
     \<lparr>files = [''train.csv'' \<mapsto> Csv text_score_train, ''test.csv'' \<mapsto> Csv example_test],
      writable = (\<lambda>p. True), leaves_partial = (\<lambda>p. False)\<rparr>"

definition text_score_train_arr :: array where
  "text_score_train_arr =
     [map (\<lambda>x. Val (Number x)) [0, - 1, 2, 0, 2, 0, 1, 1, 0, 2, 5],
      map (\<lambda>x. Val (Number x)) [0, 1, 0, 2, 0, 2, 1, 1, 2, 0, 7]]"

definition text_score_test_arr :: array where
  "text_score_test_arr = [map (\<lambda>x. Val (Number x)) [- 38, 0, 0, 2, 2, 0, 1, 1, 0, 2, 6]]"

text \<open>
  A test table with a gender that the example training table lacks.
\<close>

definition unseen_test :: dataframe where
  "unseen_test =
     [(''gender'', [Str ''other'']),
      (''race_ethnicity'', [Str ''group A'']),
      (''parental_level_of_education'', [NaN]),
      (''lunch'', [Str ''standard'']),
      (''test_preparation_course'', [Str ''none'']),
      (''math_score'', [Number 6]),
      (''reading_score'', [NaN]),
      (''writing_score'', [Number 2])]"

definition unseen_fs :: filesystem where
  "unseen_fs =
     \<lparr>files = [''train.csv'' \<mapsto> Csv example_train, ''test.csv'' \<mapsto> Csv unseen_test],
      writable = (\<lambda>p. True), leaves_partial = (\<lambda>p. False)\<rparr>"



section \<open>Properties\<close>

lemma bind_eq_Inr: "bind m f = Inr y \<longleftrightarrow> (\<exists>x. m = Inr x \<and> f x = Inr y)"
  by (cases m) (simp_all add: bind_def)

lemma bind_eq_Inl: "bind m f = Inl e \<longleftrightarrow> m = Inl e \<or> (\<exists>x. m = Inr x \<and> f x = Inl e)"
  by (cases m) (simp_all add: bind_def)

lemma bind_Inr [simp]: "bind (Inr x) f = f x"
  by (simp add: bind_def)

lemma bind_Inl [simp]: "bind (Inl e) f = Inl e"
  by (simp add: bind_def)

lemma at_line_eq_Inr: "at_line l m = Inr x \<longleftrightarrow> m = Inr x"
  by (cases m) (simp_all add: at_line_def)

lemma at_line_eq_Inl: "at_line l m = Inl p \<longleftrightarrow> (\<exists>e. m = Inl e \<and> p = (e, l))"
  by (cases m) (auto simp: at_line_def)

lemma try_except_eq_Inr: "try_except m = Inr x \<longleftrightarrow> m = Inr x"
  by (cases m) (auto simp: try_except_def)


lemma path_value: "preprocessor_obj_file_path = ''artifacts/preprocessor.pkl''"
  by (simp add: preprocessor_obj_file_path_def os_path_join_def)

lemma construct_eq_Inr: "construct rt line v = Inr x \<longleftrightarrow> raised_at rt line = None \<and> x = v"
  by (auto simp: construct_def at_line_def split: option.splits)


lemma get_object_Inr:
  "get_data_transformer_object rt = Inr pre \<longleftrightarrow>
     raised_at rt 37 = None \<and> raised_at rt 44 = None \<and> raised_at rt 60 = None \<and>
     pre = preprocessor"
  by (auto simp: get_data_transformer_object_def try_except_eq_Inr bind_eq_Inr construct_eq_Inr
      preprocessor_def)


lemma transform_fitted:
  "transform rt self X = Inr (self', Y) \<Longrightarrow> self' = self \<and> fitted self \<noteq> None"
  by (auto simp: transform_def bind_eq_Inr split: option.splits prod.splits)

lemma fit_transform_fitted:
  "fit_transform rt self X = Inr (self', Y) \<Longrightarrow>
   fitted self' \<noteq> None \<and> transformers self' = transformers self"
  by (auto simp: fit_transform_def bind_eq_Inr split: option.splits prod.splits)

subsection \<open>collect\<close>

lemma collect_map_Inr_id: "collect (map Inr xs) = Inr xs"
  by (induction xs) auto

lemma collect_Inr_D: "collect ms = Inr xs \<Longrightarrow> ms = map Inr xs"
  by (induction ms arbitrary: xs) (auto split: sum.splits)

lemma collect_eq_Inr: "collect ms = Inr xs \<longleftrightarrow> ms = map Inr xs"
  using collect_map_Inr_id collect_Inr_D by metis

lemma collect_length: "collect ms = Inr xs \<Longrightarrow> length xs = length ms"
  by (simp add: collect_eq_Inr)

subsection \<open>Conversion to float\<close>

lemma as_float_Inr: "as_float rt v = Inr r \<longleftrightarrow> convertible rt v \<and> r = to_float rt v"
  by (cases "(rt, v)" rule: as_float.cases) (auto split: option.splits)

lemma map_as_float:
  "list_all (convertible rt) c \<Longrightarrow> map (as_float rt) c = map Inr (map (to_float rt) c)"
  by (induction c) (simp_all add: as_float_Inr)

lemma map_as_float_D:
  "map (as_float rt) c = map Inr f \<Longrightarrow> list_all (convertible rt) c \<and> f = map (to_float rt) c"
proof (induction c arbitrary: f)
  case Nil
  then show ?case by simp
next
  case (Cons v c)
  then show ?case by (cases f) (auto simp: as_float_Inr)
qed

lemma collect_as_float:
  "collect (map (as_float rt) c) = Inr f \<longleftrightarrow>
     list_all (convertible rt) c \<and> f = map (to_float rt) c"
  unfolding collect_eq_Inr using map_as_float map_as_float_D by blast

lemma as_float_array_Inr:
  "as_float_array rt X = Inr F \<longleftrightarrow>
     list_all (list_all (convertible rt)) X \<and> F = map (map (to_float rt)) X"
proof (induction X arbitrary: F)
  case Nil
  then show ?case by (auto simp: as_float_array_def)
next
  case (Cons c X)
  have "as_float_array rt (c # X) = Inr F \<longleftrightarrow>
        (\<exists>f F'. collect (map (as_float rt) c) = Inr f \<and> as_float_array rt X = Inr F' \<and> F = f # F')"
    by (auto simp: as_float_array_def split: sum.splits)
  also have "\<dots> \<longleftrightarrow> list_all (list_all (convertible rt)) (c # X) \<and>
      F = map (map (to_float rt)) (c # X)"
    unfolding Cons collect_as_float by auto
  finally show ?case .
qed

lemma assert_all_finite_Inr:
  "assert_all_finite F = Inr G \<longleftrightarrow> all_finite F \<and> G = map (map real_of) F"
  by (auto simp: assert_all_finite_def all_finite_def)

lemma n_samples_map [simp]: "n_samples (map (map f) X) = n_samples X"
  by (cases X) (auto simp: n_samples_def)

lemma check_array_Inr: "check_array X = Inr u \<longleftrightarrow> X \<noteq> [] \<and> n_samples X \<noteq> 0"
  by (auto simp: check_array_def)

lemma numeric_columns:
  "list_all (numeric rt) X \<longleftrightarrow>
     list_all (list_all (convertible rt)) X \<and> all_finite (map (map (to_float rt)) X)"
  by (auto simp: numeric_def all_finite_def list_all_iff list_ex_iff)

lemma validate_float_Inr:
  "validate_float rt X = Inr G \<longleftrightarrow>
     list_all (numeric rt) X \<and> X \<noteq> [] \<and> n_samples X \<noteq> 0 \<and>
     G = map (map (\<lambda>x. real_of (to_float rt x))) X"
  by (auto simp: validate_float_def bind_eq_Inr as_float_array_Inr assert_all_finite_Inr
      check_array_Inr numeric_columns comp_def)

lemma median_fit_Inr:
  "SimpleImputer_median_fit rt X = Inr stats \<longleftrightarrow>
     list_all (numeric rt) X \<and> X \<noteq> [] \<and> n_samples X \<noteq> 0 \<and>
     stats = map (median_statistic rt) X"
  by (auto simp: SimpleImputer_median_fit_def bind_eq_Inr validate_float_Inr
      median_statistic_def training_median_def scores_def comp_def)

lemma imputed_kept:
  "length T = length X \<Longrightarrow>
   concat (map2 (\<lambda>s c. case s of None \<Rightarrow> [] | Some m \<Rightarrow> [map (fill m) c])
      (map (median_statistic rt) T) (map (map (\<lambda>x. real_of (to_float rt x))) X)) =
   imputed_columns rt T X"
proof (induction T X rule: list_induct2)
  case Nil
  then show ?case by (simp add: imputed_columns_def)
next
  case (Cons t T x X)
  have "map (fill (training_median rt t)) (map (\<lambda>x. real_of (to_float rt x)) x) =
      impute_median rt t x"
    by (simp add: impute_median_def)
  with Cons show ?case
    by (simp add: imputed_columns_def median_statistic_def)
qed

lemma median_transform_Inr:
  "SimpleImputer_median_transform rt (map (median_statistic rt) T) X = Inr Z \<longleftrightarrow>
     list_all (numeric rt) X \<and> X \<noteq> [] \<and> n_samples X \<noteq> 0 \<and> length X = length T \<and>
     Z = imputed_columns rt T X"
  by (auto simp: SimpleImputer_median_transform_def bind_eq_Inr validate_float_Inr imputed_kept)

lemma scaler_input_Inr:
  "scaler_input B = Inr G \<longleftrightarrow>
     all_finite (columns B) \<and> columns B \<noteq> [] \<and> n_samples (columns B) \<noteq> 0 \<and>
     G = map (map real_of) (columns B)"
  by (auto simp: scaler_input_def bind_eq_Inr assert_all_finite_Inr check_array_Inr)

lemma scaler_fit_Inr:
  "StandardScaler_fit rt with_mean B = Inr p \<longleftrightarrow>
     all_finite (columns B) \<and> columns B \<noteq> [] \<and> n_samples (columns B) \<noteq> 0 \<and>
     \<not> (with_mean \<and> is_sparse B) \<and> p = scaler_params rt (is_sparse B) (columns B)"
  by (auto simp: StandardScaler_fit_def bind_eq_Inr scaler_input_Inr scaler_params_def comp_def)

lemma rescale_dense:
  "length Z = length Y \<Longrightarrow>
   rescale rt True (zip (fst (scaler_params rt False Z)) (snd (scaler_params rt False Z))) (Dense Y) =
   Dense (map2 (standardized rt) Z Y)"
  by (induction Z Y rule: list_induct2) (simp_all add: scaler_params_def standardized_def)

lemma rescale_sparse:
  "length Z = length Y \<Longrightarrow>
   rescale rt False (zip (fst (scaler_params rt True (map (map entry) Z)))
                         (snd (scaler_params rt True (map (map entry) Z)))) (Sparse Y) =
   Sparse (map2 (scaled rt) Z Y)"
  by (induction Z Y rule: list_induct2) (simp_all add: scaler_params_def scaled_def comp_def)

lemma scaler_transform_Inr:
  "StandardScaler_transform rt with_mean (scaler_params rt sp Z) B = Inr B' \<longleftrightarrow>
     all_finite (columns B) \<and> columns B \<noteq> [] \<and> n_samples (columns B) \<noteq> 0 \<and>
     length (columns B) = length Z \<and> \<not> (with_mean \<and> is_sparse B) \<and>
     B' = rescale rt with_mean (zip (fst (scaler_params rt sp Z)) (snd (scaler_params rt sp Z))) B"
  by (auto simp: StandardScaler_transform_def bind_eq_Inr scaler_input_Inr scaler_params_def)

lemma length_imputed_columns:
  "length T = length X \<Longrightarrow> length (imputed_columns rt T X) = length (imputed_columns rt T T)"
  by (induction T X rule: list_induct2) (simp_all add: imputed_columns_def)

lemma numeric_features_eq:
  "length T = length X \<Longrightarrow>
   map2 (standardized rt) (imputed_columns rt T T) (imputed_columns rt T X) =
   concat (map2 (numeric_feature rt) T X)"
  by (induction T X rule: list_induct2) (simp_all add: imputed_columns_def numeric_feature_def)

lemma num_fit_transform_Inr:
  "pipeline_fit_transform rt num_pipeline T = Inr (st, B) \<longleftrightarrow>
     list_all (numeric rt) T \<and> T \<noteq> [] \<and> n_samples T \<noteq> 0 \<and>
     imputed_columns rt T T \<noteq> [] \<and> n_samples (imputed_columns rt T T) \<noteq> 0 \<and>
     all_finite (imputed_columns rt T T) \<and>
     st = num_state rt T \<and> B = Dense (concat (map2 (numeric_feature rt) T T))"
  apply (simp add: bind_eq_Inr median_fit_Inr median_transform_Inr scaler_fit_Inr
      scaler_transform_Inr num_state_def rescale_dense del: rescale.simps cong: conj_cong)
  apply (simp add: numeric_features_eq)
  apply blast
  done

lemma num_transform_Inr:
  "pipeline_transform rt (num_state rt T) X = Inr B \<longleftrightarrow>
     list_all (numeric rt) X \<and> X \<noteq> [] \<and> n_samples X \<noteq> 0 \<and> length X = length T \<and>
     imputed_columns rt T X \<noteq> [] \<and> n_samples (imputed_columns rt T X) \<noteq> 0 \<and>
     all_finite (imputed_columns rt T X) \<and>
     B = Dense (concat (map2 (numeric_feature rt) T X))"
proof (cases "length X = length T")
  case True
  then have len: "length T = length X" by simp
  have l2: "length (imputed_columns rt T T) = length (imputed_columns rt T X)"
    using length_imputed_columns [OF len, of rt] by simp
  show ?thesis
    apply (simp add: num_state_def bind_eq_Inr median_transform_Inr scaler_transform_Inr True
        del: rescale.simps cong: conj_cong)
    using l2 numeric_features_eq [OF len, of rt] rescale_dense [OF l2, of rt]
    apply auto
    done
next
  case False
  then show ?thesis
    by (simp add: num_state_def bind_eq_Inr median_transform_Inr)
qed

subsection \<open>Observed values\<close>

lemma observed_empty: "observed c = [] \<longleftrightarrow> nums c = [] \<and> strs c = []"
  by (induction c rule: nums.induct) (auto simp: observed_def)

lemma set_observed: "set (observed c) = Num ` set (nums c) \<union> Str ` set (strs c)"
  by (induction c rule: nums.induct) (auto simp: observed_def)

lemma set_training_categories: "set (training_categories t) = set (observed t)"
  by (simp add: training_categories_def set_observed)

lemma distinct_training_categories: "distinct (training_categories t)"
  by (auto simp: training_categories_def distinct_map inj_on_def)

lemma length_training_categories: "length (training_categories t) = card (set (observed t))"
  using distinct_card [OF distinct_training_categories, of t]
  by (simp add: set_training_categories)

subsection \<open>The most frequent value\<close>

lemma fold_max_eq: "fold max ys (y::nat) = Max (set (y # ys))"
  by (rule Max.set_eq_fold [symmetric])

lemma fold_min_in: "fold min ys (y::'a::linorder) \<in> set (y # ys)"
proof -
  have "fold min ys y = Min (set (y # ys))" by (rule Min.set_eq_fold [symmetric])
  also have "\<dots> \<in> set (y # ys)" by (rule Min_in) auto
  finally show ?thesis .
qed

lemma most_frequent_ties:
  assumes "xs \<noteq> []"
  shows "filter (\<lambda>x. count_list xs x = fold max (map (count_list xs) xs) 0) xs \<noteq> []"
proof -
  let ?m = "fold max (map (count_list xs) xs) 0"
  have m: "?m = Max (set (0 # map (count_list xs) xs))" by (rule fold_max_eq)
  have "?m \<in> set (0 # map (count_list xs) xs)" unfolding m by (rule Max_in) auto
  moreover have "count_list xs (hd xs) \<le> ?m" unfolding m using assms by (intro Max_ge) auto
  moreover have "0 < count_list xs (hd xs)" using assms by (cases xs) simp_all
  ultimately obtain x where "x \<in> set xs" "count_list xs x = ?m" by auto
  then show ?thesis by (auto simp: filter_empty_conv)
qed

lemma most_frequent_in_set: "xs \<noteq> [] \<Longrightarrow> most_frequent xs \<in> set xs"
proof -
  assume xs: "xs \<noteq> []"
  let ?ties = "filter (\<lambda>x. count_list xs x = fold max (map (count_list xs) xs) 0) xs"
  have t: "?ties \<noteq> []" by (rule most_frequent_ties [OF xs])
  have "most_frequent xs = fold min ?ties (hd ?ties)" by (simp add: most_frequent_def Let_def)
  also have "\<dots> \<in> set (hd ?ties # ?ties)" by (rule fold_min_in)
  also have "set (hd ?ties # ?ties) = set ?ties" using t by (cases ?ties) auto
  finally show ?thesis by auto
qed

lemma most_frequent_is_mode:
  assumes "xs \<noteq> []"
  shows "count_list xs y \<le> count_list xs (most_frequent xs)"
proof -
  let ?m = "fold max (map (count_list xs) xs) 0"
  let ?ties = "filter (\<lambda>x. count_list xs x = ?m) xs"
  have t: "?ties \<noteq> []" by (rule most_frequent_ties [OF assms])
  have "most_frequent xs = fold min ?ties (hd ?ties)" by (simp add: most_frequent_def Let_def)
  also have "\<dots> \<in> set (hd ?ties # ?ties)" by (rule fold_min_in)
  also have "set (hd ?ties # ?ties) = set ?ties" using t by (cases ?ties) auto
  finally have "count_list xs (most_frequent xs) = ?m" by auto
  moreover have "count_list xs y \<le> ?m"
  proof (cases "y \<in> set xs")
    case True
    then show ?thesis unfolding fold_max_eq by (intro Max_ge) auto
  next
    case False
    then show ?thesis by (simp add: count_list_0_iff)
  qed
  ultimately show ?thesis by simp
qed

lemma training_mode_observed: "observed t \<noteq> [] \<Longrightarrow> training_mode t \<in> set (observed t)"
  by (auto simp: training_mode_def set_observed observed_empty most_frequent_in_set)

lemma training_mode_not_NaN [simp]: "training_mode t \<noteq> NaN"
  by (simp add: training_mode_def)

lemma mode_statistic_NaN [simp]: "mode_statistic t = NaN \<longleftrightarrow> observed t = []"
  by (simp add: mode_statistic_def)

subsection \<open>Imputation by the mode\<close>

lemma most_frequent_cell_Inr:
  "most_frequent_cell c = Inr s \<longleftrightarrow> homogeneous c \<and> s = mode_statistic c"
  by (auto simp: most_frequent_cell_def homogeneous_def mode_statistic_def training_mode_def
      observed_empty)

lemma map_most_frequent_cell:
  "map most_frequent_cell X = map Inr stats \<longleftrightarrow>
     list_all homogeneous X \<and> stats = map mode_statistic X"
proof (induction X arbitrary: stats)
  case Nil
  then show ?case by auto
next
  case (Cons c X)
  then show ?case by (cases stats) (auto simp: most_frequent_cell_Inr)
qed

lemma most_frequent_fit_Inr:
  "SimpleImputer_most_frequent_fit X = Inr imputer \<longleftrightarrow>
     accepts_infinity X X \<and> X \<noteq> [] \<and> n_samples X \<noteq> 0 \<and> list_all homogeneous X \<and>
     imputer = (map mode_statistic X, object_dtype X)"
  by (auto simp: SimpleImputer_most_frequent_fit_def bind_eq_Inr check_array_Inr collect_eq_Inr
      map_most_frequent_cell accepts_infinity_def)

lemma mode_kept:
  "length T = length X \<Longrightarrow>
   concat (map2 (\<lambda>s c. if s = NaN then [] else [map (fill_cell s) c]) (map mode_statistic T) X) =
   mode_imputed T X"
proof (induction T X rule: list_induct2)
  case Nil
  then show ?case by (simp add: mode_imputed_def)
next
  case (Cons t T x X)
  have "observed t \<noteq> [] \<Longrightarrow> map (fill_cell (mode_statistic t)) x = impute_mode t x"
    by (simp add: impute_mode_def fill_cell_def mode_statistic_def)
  with Cons show ?case by (simp add: mode_imputed_def)
qed

lemma most_frequent_transform_Inr:
  "SimpleImputer_most_frequent_transform (map mode_statistic T, object_dtype T) X = Inr X1 \<longleftrightarrow>
     accepts_infinity T X \<and> X \<noteq> [] \<and> n_samples X \<noteq> 0 \<and> length X = length T \<and>
     X1 = mode_imputed T X"
  by (auto simp: SimpleImputer_most_frequent_transform_def bind_eq_Inr check_array_Inr mode_kept
      accepts_infinity_def)

subsection \<open>One-hot encoding\<close>

lemma sort_remdups_cong: "set xs = set ys \<Longrightarrow> sort (remdups xs) = sort (remdups ys)"
  by (metis sorted_list_of_set_sort_remdups)

lemma nums_fill_Str [simp]: "nums (map (\<lambda>v. if v = NaN then Str s else v) x) = nums x"
  by (induction x rule: nums.induct) auto

lemma strs_fill_Num [simp]: "strs (map (\<lambda>v. if v = NaN then Num r else v) x) = strs x"
  by (induction x rule: strs.induct) auto

lemma set_nums_fill_Num:
  "set (nums (map (\<lambda>v. if v = NaN then Num r else v) x)) \<subseteq> insert r (set (nums x)) \<and>
   set (nums x) \<subseteq> set (nums (map (\<lambda>v. if v = NaN then Num r else v) x))"
  by (induction x rule: nums.induct) auto

lemma set_strs_fill_Str:
  "set (strs (map (\<lambda>v. if v = NaN then Str s else v) x)) \<subseteq> insert s (set (strs x)) \<and>
   set (strs x) \<subseteq> set (strs (map (\<lambda>v. if v = NaN then Str s else v) x))"
  by (induction x rule: strs.induct) auto

lemma NaN_notin_impute_mode [simp]: "NaN \<notin> set (impute_mode t x)"
  by (auto simp: impute_mode_def training_mode_def split: if_splits)

lemma set_observed_impute_mode:
  "set (observed (impute_mode t x)) = set (observed x) \<union> (if NaN \<in> set x then {training_mode t} else {})"
  by (auto simp: impute_mode_def observed_def)

lemma set_nums_observed: "set (nums c) = {r. Num r \<in> set (observed c)}"
  by (auto simp: set_observed)

lemma set_strs_observed: "set (strs c) = {s. Str s \<in> set (observed c)}"
  by (auto simp: set_observed)

lemma impute_mode_train_observed:
  assumes "observed t \<noteq> []"
  shows "set (observed (impute_mode t t)) = set (observed t)"
  using training_mode_observed [OF assms] by (auto simp: set_observed_impute_mode)

lemma training_categories_cong:
  "set (observed c) = set (observed d) \<Longrightarrow> training_categories c = training_categories d"
  unfolding training_categories_def
  by (intro arg_cong2 [where f = append] arg_cong [where f = "map Num"]
      arg_cong [where f = "map Str"] sort_remdups_cong) (simp_all add: set_nums_observed set_strs_observed)

lemma homogeneous_cong:
  "set (observed c) = set (observed d) \<Longrightarrow> homogeneous c = homogeneous d"
  unfolding homogeneous_def
  by (metis set_empty set_nums_observed set_strs_observed)

lemma categories_of_Inr:
  "categories_of c = Inr cats \<longleftrightarrow>
     homogeneous c \<and> cats = training_categories c @ (if NaN \<in> set c then [NaN] else [])"
  by (auto simp: categories_of_def homogeneous_def training_categories_def)

lemma categories_of_imputed:
  assumes "observed t \<noteq> []" and "homogeneous t"
  shows "categories_of (impute_mode t t) = Inr (training_categories t)"
  using assms impute_mode_train_observed [OF assms(1)]
  by (simp add: categories_of_Inr homogeneous_cong [of "impute_mode t t" t]
      training_categories_cong [of "impute_mode t t" t])

lemma map_categories_of_imputed:
  "list_all homogeneous T \<Longrightarrow>
   map categories_of (mode_imputed T T) =
   map Inr (map training_categories (filter (\<lambda>t. observed t \<noteq> []) T))"
  by (induction T) (simp_all add: mode_imputed_def categories_of_imputed)

lemma collect_categories_of_imputed:
  "list_all homogeneous T \<Longrightarrow>
   collect (map categories_of (mode_imputed T T)) =
   Inr (map training_categories (filter (\<lambda>t. observed t \<noteq> []) T))"
  using collect_map_Inr_id [of "map training_categories (filter (\<lambda>t. observed t \<noteq> []) T)"]
  by (simp only: map_categories_of_imputed)

lemma encoder_fit_imputed:
  assumes "list_all homogeneous T"
  shows "OneHotEncoder_fit (mode_imputed T T) = Inr cats \<longleftrightarrow>
           mode_imputed T T \<noteq> [] \<and> n_samples (mode_imputed T T) \<noteq> 0 \<and>
           cats = map training_categories (filter (\<lambda>t. observed t \<noteq> []) T)"
  by (auto simp: OneHotEncoder_fit_def bind_eq_Inr check_array_Inr
      collect_categories_of_imputed [OF assms])

lemma length_mode_imputed:
  "length T = length X \<Longrightarrow> length (mode_imputed T X) = length (filter (\<lambda>t. observed t \<noteq> []) T)"
  by (induction T X rule: list_induct2) (simp_all add: mode_imputed_def)

lemma impute_mode_known:
  assumes "observed t \<noteq> []"
  shows "list_ex (\<lambda>v. v \<notin> set (training_categories t)) (impute_mode t x) \<longleftrightarrow>
         \<not> set (observed x) \<subseteq> set (observed t)"
proof -
  have "list_ex (\<lambda>v. v \<notin> set (training_categories t)) (impute_mode t x) \<longleftrightarrow>
        \<not> set (impute_mode t x) \<subseteq> set (observed t)"
    by (auto simp: list_ex_iff set_training_categories)
  also have "set (impute_mode t x) = set (observed (impute_mode t x))"
    by (auto simp: observed_def)
  also have "\<dots> \<subseteq> set (observed t) \<longleftrightarrow> set (observed x) \<subseteq> set (observed t)"
    using training_mode_observed [OF assms] by (auto simp: set_observed_impute_mode)
  finally show ?thesis .
qed

lemma unknown_check:
  "length T = length X \<Longrightarrow>
   list_ex (\<lambda>(cats, c). list_ex (\<lambda>v. v \<notin> set cats) c)
     (zip (map training_categories (filter (\<lambda>t. observed t \<noteq> []) T)) (mode_imputed T X)) \<longleftrightarrow>
   \<not> known_categories T X"
  by (induction T X rule: list_induct2)
    (simp_all add: mode_imputed_def known_categories_def impute_mode_known)

lemma encoder_output:
  "length T = length X \<Longrightarrow>
   concat (map2 (\<lambda>cats c. map (\<lambda>k. indicator k c) cats)
     (map training_categories (filter (\<lambda>t. observed t \<noteq> []) T)) (mode_imputed T X)) =
   encoded T X"
  by (induction T X rule: list_induct2) (simp_all add: mode_imputed_def encoded_def)

lemma encoder_transform_Inr:
  assumes "length T = length X"
  shows "OneHotEncoder_transform (map training_categories (filter (\<lambda>t. observed t \<noteq> []) T))
           (mode_imputed T X) = Inr X2 \<longleftrightarrow>
         mode_imputed T X \<noteq> [] \<and> n_samples (mode_imputed T X) \<noteq> 0 \<and> known_categories T X \<and>
         X2 = encoded T X"
  using assms
  by (auto simp: OneHotEncoder_transform_def bind_eq_Inr check_array_Inr length_mode_imputed
      unknown_check encoder_output)

lemma known_categories_refl: "known_categories T T"
  by (induction T) (simp_all add: known_categories_def)

lemma length_encoded:
  "length T = length X \<Longrightarrow> length (encoded T X) = length (encoded T T)"
  by (induction T X rule: list_induct2) (simp_all add: encoded_def)

lemma map2_map_map: "map2 f (map g xs) (map h xs) = map (\<lambda>k. f (g k) (h k)) xs"
  by (induction xs) simp_all

lemma categorical_features_eq:
  "length T = length X \<Longrightarrow>
   map2 (scaled rt) (encoded T T) (encoded T X) = concat (map2 (categorical_feature rt) T X)"
proof (induction T X rule: list_induct2)
  case Nil
  then show ?case by (simp add: encoded_def)
next
  case (Cons t T x X)
  then show ?case
    by (simp add: encoded_def categorical_feature_def map2_map_map)
qed

lemma not_infinite_entry_indicator: "v \<in> set (indicator k c) \<Longrightarrow> \<not> is_infinite (entry v)"
  by (auto simp: indicator_def entry_def split: if_splits)

lemma all_finite_encoded: "all_finite (map (map entry) (encoded T X))"
proof -
  have "\<And>c. c \<in> set (encoded T X) \<Longrightarrow> \<exists>k d. c = indicator k d"
    by (auto simp: encoded_def dest!: set_zip_leftD split: if_splits)
  then show ?thesis
    by (auto simp: all_finite_def list_ex_iff dest: not_infinite_entry_indicator)
qed

lemma ex_pair [simp]: "\<exists>a b. (a, b) = p"
  by (cases p) auto

lemma map_map_empty [simp]: "map (map f) X = [] \<longleftrightarrow> X = []"
  by simp

lemma cat_fit_transform_Inr:
  "pipeline_fit_transform rt cat_pipeline T = Inr (st, B) \<longleftrightarrow>
     accepts_infinity T T \<and> T \<noteq> [] \<and> n_samples T \<noteq> 0 \<and> list_all homogeneous T \<and>
     mode_imputed T T \<noteq> [] \<and> n_samples (mode_imputed T T) \<noteq> 0 \<and>
     encoded T T \<noteq> [] \<and> n_samples (encoded T T) \<noteq> 0 \<and>
     st = cat_state rt T \<and> B = Sparse (concat (map2 (categorical_feature rt) T T))"
proof -
  have enc: "OneHotEncoder_transform (map training_categories (filter (\<lambda>t. observed t \<noteq> []) T))
           (mode_imputed T T) = Inr X2 \<longleftrightarrow>
         mode_imputed T T \<noteq> [] \<and> n_samples (mode_imputed T T) \<noteq> 0 \<and> X2 = encoded T T" for X2
    by (simp add: encoder_transform_Inr known_categories_refl)
  show ?thesis
    apply (simp add: bind_eq_Inr most_frequent_fit_Inr most_frequent_transform_Inr
        del: rescale.simps cong: conj_cong)
    apply (cases "list_all homogeneous T")
     apply (simp add: encoder_fit_imputed enc scaler_fit_Inr scaler_transform_Inr cat_state_def
        all_finite_encoded rescale_sparse categorical_features_eq
        del: rescale.simps cong: conj_cong)
     apply blast
    apply simp
    done
qed

lemma cat_transform_Inr:
  "pipeline_transform rt (cat_state rt T) X = Inr B \<longleftrightarrow>
     accepts_infinity T X \<and> X \<noteq> [] \<and> n_samples X \<noteq> 0 \<and> length X = length T \<and>
     mode_imputed T X \<noteq> [] \<and> n_samples (mode_imputed T X) \<noteq> 0 \<and> known_categories T X \<and>
     encoded T X \<noteq> [] \<and> n_samples (encoded T X) \<noteq> 0 \<and>
     B = Sparse (concat (map2 (categorical_feature rt) T X))"
proof (cases "length X = length T")
  case True
  then have len: "length T = length X" by simp
  have l2: "length (encoded T T) = length (encoded T X)"
    using length_encoded [OF len] by simp
  show ?thesis
    apply (simp add: cat_state_def bind_eq_Inr most_frequent_transform_Inr True
        encoder_transform_Inr [OF len] scaler_transform_Inr all_finite_encoded
        del: rescale.simps cong: conj_cong)
    using categorical_features_eq [OF len, of rt] l2 rescale_sparse [OF l2, of rt] apply auto
    done
next
  case False
  then show ?thesis
    by (simp add: cat_state_def bind_eq_Inr most_frequent_transform_Inr)
qed

lemma fit_transform_unfold:
  "fit_transform rt preprocessor T =
   bind (select_columns T numerical_columns) (\<lambda>Tn.
   bind (select_columns T categorical_columns) (\<lambda>Tc.
   bind (pipeline_fit_transform rt num_pipeline Tn) (\<lambda>(sn, Bn).
   bind (pipeline_fit_transform rt cat_pipeline Tc) (\<lambda>(sc, Bc).
   bind (sparse_decision [Bn, Bc]) (\<lambda>sp.
     Inr (\<lparr>transformers =
            [(''num_pipeline'', num_pipeline, numerical_columns),
             (''cat_pipeline'', cat_pipeline, categorical_columns)],
           fitted = Some ([sn, sc], sp)\<rparr>, hstack sp [Bn, Bc]))))))"
  by (simp add: fit_transform_def preprocessor_def ColumnTransformer_def bind_def
      del: pipeline_fit_transform.simps split: sum.splits prod.splits)

lemma transform_unfold:
  "transform rt (fitted_on rt Tn Tc sp) X =
   bind (select_columns X numerical_columns) (\<lambda>Xn.
   bind (select_columns X categorical_columns) (\<lambda>Xc.
   bind (pipeline_transform rt (num_state rt Tn) Xn) (\<lambda>Bn.
   bind (pipeline_transform rt (cat_state rt Tc) Xc) (\<lambda>Bc.
     Inr (fitted_on rt Tn Tc sp, hstack sp [Bn, Bc])))))"
  by (simp add: transform_def fitted_on_def bind_def
      del: pipeline_transform.simps split: sum.splits prod.splits)

lemma fit_transform_preprocessor:
  "fit_transform rt preprocessor T = Inr (obj, M) \<longleftrightarrow>
   (\<exists>Tn Tc sp.
      select_columns T numerical_columns = Inr Tn \<and>
      select_columns T categorical_columns = Inr Tc \<and>
      (\<exists>B. pipeline_fit_transform rt num_pipeline Tn = Inr (num_state rt Tn, B)) \<and>
      (\<exists>B. pipeline_fit_transform rt cat_pipeline Tc = Inr (cat_state rt Tc, B)) \<and>
      sparse_decision (feature_blocks rt Tn Tc Tn Tc) = Inr sp \<and>
      obj = fitted_on rt Tn Tc sp \<and> M = hstack sp (feature_blocks rt Tn Tc Tn Tc))"
  unfolding fit_transform_unfold
  apply (simp add: bind_eq_Inr num_fit_transform_Inr cat_fit_transform_Inr fitted_on_def
      feature_blocks_def del: pipeline_fit_transform.simps cong: conj_cong)
  apply blast
  done

lemma transform_preprocessor:
  "transform rt (fitted_on rt Tn Tc sp) X = Inr (obj, M) \<longleftrightarrow>
   (\<exists>Xn Xc.
      select_columns X numerical_columns = Inr Xn \<and>
      select_columns X categorical_columns = Inr Xc \<and>
      (\<exists>B. pipeline_transform rt (num_state rt Tn) Xn = Inr B) \<and>
      (\<exists>B. pipeline_transform rt (cat_state rt Tc) Xc = Inr B) \<and>
      obj = fitted_on rt Tn Tc sp \<and> M = hstack sp (feature_blocks rt Tn Tc Xn Xc))"
  unfolding transform_unfold
  apply (simp add: bind_eq_Inr num_transform_Inr cat_transform_Inr
      feature_blocks_def del: pipeline_transform.simps cong: conj_cong)
  apply blast
  done

subsection \<open>Shapes\<close>

lemma length_rows_of [simp]: "length (rows_of X) = n_samples X"
  by (simp add: rows_of_def)

lemma length_row: "r \<in> set (rows_of X) \<Longrightarrow> length r = length X"
  by (auto simp: rows_of_def)

lemma rows_hstack [simp]: "rows (hstack sp Bs) = rows_of (concat (map columns Bs))"
  by (simp add: hstack_def)

lemma rectangular_Nil [simp]: "rectangular n []"
  by (simp add: rectangular_def)

lemma rectangular_Cons [simp]: "rectangular n (c # X) \<longleftrightarrow> length c = n \<and> rectangular n X"
  by (simp add: rectangular_def)

lemma rectangular_append [simp]: "rectangular n (X @ Y) \<longleftrightarrow> rectangular n X \<and> rectangular n Y"
  by (simp add: rectangular_def)

lemma rectangular_map_map [simp]: "rectangular n (map (map f) X) \<longleftrightarrow> rectangular n X"
  by (simp add: rectangular_def list_all_iff)

lemma rectangular_n_samples: "rectangular n X \<Longrightarrow> X \<noteq> [] \<Longrightarrow> n_samples X = n"
  by (cases X) (simp_all add: n_samples_def)

lemma length_impute_median [simp]: "length (impute_median rt t x) = length x"
  by (simp add: impute_median_def)

lemma length_impute_mode [simp]: "length (impute_mode t x) = length x"
  by (simp add: impute_mode_def)

lemma length_standardized [simp]: "length (standardized rt z y) = length y"
  by (simp add: standardized_def)

lemma length_scaled [simp]: "length (scaled rt z y) = length y"
  by (simp add: scaled_def)

lemma length_indicator [simp]: "length (indicator k c) = length c"
  by (simp add: indicator_def)

lemma rectangular_imputed_columns:
  "length T = length X \<Longrightarrow> rectangular n X \<Longrightarrow> rectangular n (imputed_columns rt T X)"
  by (induction T X rule: list_induct2) (simp_all add: imputed_columns_def)

lemma rectangular_mode_imputed:
  "length T = length X \<Longrightarrow> rectangular n X \<Longrightarrow> rectangular n (mode_imputed T X)"
  by (induction T X rule: list_induct2) (simp_all add: mode_imputed_def)

lemma rectangular_map: "rectangular n (map f ks) \<longleftrightarrow> (\<forall>k\<in>set ks. length (f k) = n)"
  by (simp add: rectangular_def list_all_iff)

lemma rectangular_encoded:
  "length T = length X \<Longrightarrow> rectangular n X \<Longrightarrow> rectangular n (encoded T X)"
  by (induction T X rule: list_induct2) (simp_all add: encoded_def rectangular_map)

lemma rectangular_numeric_features:
  "length T = length X \<Longrightarrow> rectangular n X \<Longrightarrow>
   rectangular n (concat (map2 (numeric_feature rt) T X))"
  by (induction T X rule: list_induct2) (simp_all add: numeric_feature_def)

lemma rectangular_categorical_features:
  "length T = length X \<Longrightarrow> rectangular n X \<Longrightarrow>
   rectangular n (concat (map2 (categorical_feature rt) T X))"
  by (induction T X rule: list_induct2) (simp_all add: categorical_feature_def rectangular_map)

subsection \<open>Numbers of columns\<close>

lemma length_numeric_features:
  "length T = length X \<Longrightarrow>
   length (concat (map2 (numeric_feature rt) T X)) = length (filter (\<lambda>t. scores rt t \<noteq> []) T)"
  by (induction T X rule: list_induct2) (simp_all add: numeric_feature_def)

lemma length_categorical_features:
  "length T = length X \<Longrightarrow>
   length (concat (map2 (categorical_feature rt) T X)) = (\<Sum>t\<leftarrow>T. card (set (observed t)))"
  by (induction T X rule: list_induct2)
    (simp_all add: categorical_feature_def length_training_categories)

lemma imputed_columns_empty:
  "length T = length X \<Longrightarrow> imputed_columns rt T X = [] \<longleftrightarrow> list_all (\<lambda>t. scores rt t = []) T"
  by (induction T X rule: list_induct2) (simp_all add: imputed_columns_def)

lemma mode_imputed_empty:
  "length T = length X \<Longrightarrow> mode_imputed T X = [] \<longleftrightarrow> list_all (\<lambda>t. observed t = []) T"
  by (induction T X rule: list_induct2) (simp_all add: mode_imputed_def)

lemma training_categories_empty [simp]: "training_categories t = [] \<longleftrightarrow> observed t = []"
  using set_training_categories [of t] by (metis set_empty)

lemma encoded_empty:
  "length T = length X \<Longrightarrow> encoded T X = [] \<longleftrightarrow> list_all (\<lambda>t. observed t = []) T"
  by (induction T X rule: list_induct2) (simp_all add: encoded_def)

subsection \<open>Stored entries\<close>

lemma one_hot_row:
  "distinct ks \<Longrightarrow> v \<in> set ks \<Longrightarrow> (\<Sum>k\<leftarrow>ks. if v = k then 1 else 0) = (1::nat)"
proof (induction ks)
  case Nil
  then show ?case by simp
next
  case (Cons k ks)
  show ?case
  proof (cases "v = k")
    case True
    with Cons.prems have "v \<notin> set ks" by simp
    then have "(\<Sum>k\<leftarrow>ks. if v = k then 1 else 0) = (0::nat)"
      by (induction ks) auto
    with True show ?thesis by simp
  next
    case False
    with Cons show ?thesis by simp
  qed
qed

lemma one_hot_count:
  "distinct ks \<Longrightarrow> set c \<subseteq> set ks \<Longrightarrow>
   (\<Sum>k\<leftarrow>ks. length (filter (\<lambda>v. v = k) c)) = length c"
proof (induction c)
  case Nil
  then show ?case by (induction ks) simp_all
next
  case (Cons v c)
  have "(\<Sum>k\<leftarrow>ks. length (filter (\<lambda>u. u = k) (v # c))) =
        (\<Sum>k\<leftarrow>ks. (if v = k then 1 else 0) + length (filter (\<lambda>u. u = k) c))"
    by (intro arg_cong [where f = sum_list] map_cong) auto
  also have "\<dots> = (\<Sum>k\<leftarrow>ks. if v = k then 1 else 0) + (\<Sum>k\<leftarrow>ks. length (filter (\<lambda>u. u = k) c))"
    by (simp add: sum_list_addf)
  also have "\<dots> = 1 + length c"
    using Cons one_hot_row [of ks v] by simp
  finally show ?case by simp
qed

lemma nonzero_scaled_indicator:
  "length (filter (\<lambda>x. x \<noteq> None) (scaled rt z (indicator k c))) = length (filter (\<lambda>v. v = k) c)"
  by (induction c) (simp_all add: scaled_def indicator_def)

lemma sum_length_map_map [simp]: "sum_list (map length (map (map f) X)) = sum_list (map length X)"
  by (induction X) simp_all

lemma sum_length_comp_map [simp]: "sum_list (map (length \<circ> map f) X) = sum_list (map length X)"
  by (induction X) simp_all

lemma nnz_categorical_feature:
  assumes "observed t \<noteq> []" and "set (observed x) \<subseteq> set (observed t)"
  shows "nnz (Sparse (categorical_feature rt t x)) = length x"
proof -
  have sub: "set (impute_mode t x) \<subseteq> set (training_categories t)"
    using assms training_mode_observed [OF assms(1)]
    by (auto simp: impute_mode_def set_training_categories observed_def)
  have "nnz (Sparse (categorical_feature rt t x)) =
        (\<Sum>k\<leftarrow>training_categories t. length (filter (\<lambda>v. v = k) (impute_mode t x)))"
    using assms(1)
    by (simp add: categorical_feature_def comp_def nonzero_scaled_indicator del: not_None_eq)
  also have "\<dots> = length (impute_mode t x)"
    by (rule one_hot_count [OF distinct_training_categories sub])
  finally show ?thesis by simp
qed

lemma nnz_Sparse_append: "nnz (Sparse (X @ Y)) = nnz (Sparse X) + nnz (Sparse Y)"
  by simp

lemma nnz_categorical_features:
  "length T = length X \<Longrightarrow> rectangular n X \<Longrightarrow> known_categories T X \<Longrightarrow>
   nnz (Sparse (concat (map2 (categorical_feature rt) T X))) =
   n * length (filter (\<lambda>t. observed t \<noteq> []) T)"
proof (induction T X rule: list_induct2)
  case Nil
  then show ?case by simp
next
  case (Cons t T x X)
  then have IH: "nnz (Sparse (concat (map2 (categorical_feature rt) T X))) =
      n * length (filter (\<lambda>t. observed t \<noteq> []) T)"
    by (simp add: known_categories_def)
  show ?case
  proof (cases "observed t = []")
    case True
    then have "categorical_feature rt t x = []" by (simp add: categorical_feature_def)
    with True IH show ?thesis by (simp del: nnz.simps)
  next
    case False
    with Cons.prems have "set (observed x) \<subseteq> set (observed t)" and "length x = n"
      by (simp_all add: known_categories_def)
    with False have "nnz (Sparse (categorical_feature rt t x)) = n"
      by (simp add: nnz_categorical_feature del: nnz.simps)
    with False IH show ?thesis
      using nnz_Sparse_append [of "categorical_feature rt t x" "concat (map2 (categorical_feature rt) T X)"]
      by (simp del: nnz.simps)
  qed
qed

lemma three_tenths: "((a::real) < 3 / 10 * b) = (10 * a < 3 * b)"
  by linarith

lemma sum_length_rectangular: "rectangular n X \<Longrightarrow> sum_list (map length X) = n * length X"
  by (induction X) simp_all

lemma sparse_decision_blocks:
  assumes "length Tn = length Xn" and "length Tc = length Xc"
    and "rectangular n Xn" and "rectangular n Xc" and "known_categories Tc Xc" and "0 < n"
    and "list_ex (\<lambda>t. scores rt t \<noteq> []) Tn"
  shows "sparse_decision (feature_blocks rt Tn Tc Xn Xc) =
     Inr (10 * (length (filter (\<lambda>t. scores rt t \<noteq> []) Tn) + length (filter (\<lambda>t. observed t \<noteq> []) Tc))
          < 3 * (length (filter (\<lambda>t. scores rt t \<noteq> []) Tn) + (\<Sum>t\<leftarrow>Tc. card (set (observed t)))))"
proof -
  let ?q = "length (filter (\<lambda>t. scores rt t \<noteq> []) Tn)"
  let ?c = "length (filter (\<lambda>t. observed t \<noteq> []) Tc)"
  let ?K = "(\<Sum>t\<leftarrow>Tc. card (set (observed t)))"
  let ?Fn = "concat (map2 (numeric_feature rt) Tn Xn)"
  let ?Fc = "concat (map2 (categorical_feature rt) Tc Xc)"
  have q: "0 < ?q" using assms(7) by (induction Tn) auto
  have sn: "sum_list (map length ?Fn) = n * ?q"
    using sum_length_rectangular [OF rectangular_numeric_features [OF assms(1,3)]]
    by (simp add: length_numeric_features [OF assms(1)])
  have sc: "sum_list (map length ?Fc) = n * ?K"
    using sum_length_rectangular [OF rectangular_categorical_features [OF assms(2,4)]]
    by (simp add: length_categorical_features [OF assms(2)])
  have nz: "nnz (Sparse ?Fc) = n * ?c"
    by (rule nnz_categorical_features [OF assms(2,4,5)])
  have tot: "sum_list (map total_size (feature_blocks rt Tn Tc Xn Xc)) = n * (?q + ?K)"
    by (simp add: feature_blocks_def total_size_def sn sc algebra_simps)
  have nn: "sum_list (map nnz (feature_blocks rt Tn Tc Xn Xc)) = n * (?q + ?c)"
    using nz by (simp add: feature_blocks_def sn algebra_simps del: nnz.simps(2)) 
  have pos: "0 < n * (?q + ?K)" using q assms(6) by simp
  have iff: "real (n * (?q + ?c)) / real (n * (?q + ?K)) < 3 / 10 \<longleftrightarrow> 10 * (?q + ?c) < 3 * (?q + ?K)"
  proof -
    have "0 < ?q + ?K" using q by simp
    then have pK: "0 < real (?q + ?K)" by (simp only: of_nat_0_less_iff)
    have "real (n * (?q + ?c)) / real (n * (?q + ?K)) = real (?q + ?c) / real (?q + ?K)"
      using assms(6) by simp
    also have "\<dots> < 3 / 10 \<longleftrightarrow> real (?q + ?c) < 3 / 10 * real (?q + ?K)"
      by (rule pos_divide_less_eq [OF pK])
    also have "\<dots> \<longleftrightarrow> real (10 * (?q + ?c)) < real (3 * (?q + ?K))"
      by (simp only: of_nat_mult of_nat_numeral three_tenths)
    also have "\<dots> \<longleftrightarrow> 10 * (?q + ?c) < 3 * (?q + ?K)"
      by (rule of_nat_less_iff)
    finally show ?thesis .
  qed
  have sp: "list_ex is_sparse (feature_blocks rt Tn Tc Xn Xc)"
    by (simp add: feature_blocks_def)
  have ne: "n * (?q + ?K) \<noteq> 0" using pos by linarith
  show ?thesis
    by (simp only: sparse_decision_def tot nn sp ne iff if_True if_False)
qed

subsection \<open>Tables\<close>

lemma wf_column:
  "wf_dataframe df \<Longrightarrow> map_of df name = Some c \<Longrightarrow>
   length c = n_rows df \<and> homogeneous c \<and> list_all in_range c"
  by (auto simp: wf_dataframe_def list_all_iff dest!: map_of_SomeD)

lemma read_csv_wf: "read_csv fs path = Inr df \<Longrightarrow> wf_dataframe df"
  by (auto simp: read_csv_def split: option.splits stored_file.splits if_splits)

lemma select_columns_Cons:
  "select_columns df (name # names) = Inr cols \<longleftrightarrow>
     (\<exists>c cs. map_of df name = Some c \<and> select_columns df names = Inr cs \<and> cols = c # cs)"
  by (auto simp: select_columns_def split: option.splits sum.splits)

lemma select_columns_Nil [simp]: "select_columns df [] = Inr []"
  by (simp add: select_columns_def)

lemma select_columns_length: "select_columns df names = Inr cols \<Longrightarrow> length cols = length names"
  by (induction names arbitrary: cols) (auto simp: select_columns_Cons)

lemma select_columns_wf:
  "wf_dataframe df \<Longrightarrow> select_columns df names = Inr cols \<Longrightarrow>
   rectangular (n_rows df) cols \<and> list_all homogeneous cols \<and> list_all (list_all in_range) cols"
  by (induction names arbitrary: cols) (auto simp: select_columns_Cons dest: wf_column)

lemma map_of_filter_key:
  "map_of (filter (\<lambda>(name, c). name \<notin> set ns) df) name =
     (if name \<in> set ns then None else map_of df name)"
  by (induction df) auto

lemma select_columns_filter:
  "set names \<inter> set ns = {} \<Longrightarrow>
   select_columns (filter (\<lambda>(name, c). name \<notin> set ns) df) names = select_columns df names"
  unfolding select_columns_def
  by (intro arg_cong [where f = collect] map_cong) (auto simp: map_of_filter_key)

lemma drop_columns_Inr:
  "drop_columns [name] df = Inr features \<longleftrightarrow>
     name \<in> set (map fst df) \<and> features = filter (\<lambda>(n, c). n \<noteq> name) df"
  by (auto simp: drop_columns_def)

lemma select_columns_filter1:
  "name \<notin> set names \<Longrightarrow>
   select_columns (filter (\<lambda>(n, c). n \<noteq> name) df) names = select_columns df names"
  using select_columns_filter [of names "[name]" df] by simp

lemma getitem_Inr: "getitem df name = Inr y \<longleftrightarrow> map_of df name = Some y"
  by (auto simp: getitem_def split: option.splits)

lemma select_features_numerical:
  "select_columns (filter (\<lambda>(n, c). n \<noteq> target_column_name) df) numerical_columns =
   select_columns df numerical_columns"
  by (rule select_columns_filter1) (simp add: numerical_columns_def target_column_name_def)

lemma select_features_categorical:
  "select_columns (filter (\<lambda>(n, c). n \<noteq> target_column_name) df) categorical_columns =
   select_columns df categorical_columns"
  by (rule select_columns_filter1) (simp add: categorical_columns_def target_column_name_def)

subsection \<open>A successful run\<close>

lemma steps_success:
  assumes "transformation_steps rt fs train_path test_path = Inr (train_arr, test_arr, obj)"
  shows "\<exists>train_df test_df Tn Tc Xn Xc y_train y_test sp.
     get_data_transformer_object rt = Inr preprocessor \<and>
     read_csv fs train_path = Inr train_df \<and> read_csv fs test_path = Inr test_df \<and>
     map_of train_df target_column_name = Some y_train \<and>
     map_of test_df target_column_name = Some y_test \<and>
     select_columns train_df numerical_columns = Inr Tn \<and>
     select_columns train_df categorical_columns = Inr Tc \<and>
     select_columns test_df numerical_columns = Inr Xn \<and>
     select_columns test_df categorical_columns = Inr Xc \<and>
     (\<exists>B. pipeline_fit_transform rt num_pipeline Tn = Inr (num_state rt Tn, B)) \<and>
     (\<exists>B. pipeline_fit_transform rt cat_pipeline Tc = Inr (cat_state rt Tc, B)) \<and>
     (\<exists>B. pipeline_transform rt (num_state rt Tn) Xn = Inr B) \<and>
     (\<exists>B. pipeline_transform rt (cat_state rt Tc) Xc = Inr B) \<and>
     sparse_decision (feature_blocks rt Tn Tc Tn Tc) = Inr sp \<and>
     obj = fitted_on rt Tn Tc sp \<and>
     fit_transform rt preprocessor
       (filter (\<lambda>(n, c). n \<noteq> target_column_name) train_df) =
       Inr (obj, hstack sp (feature_blocks rt Tn Tc Tn Tc)) \<and>
     transform rt obj (filter (\<lambda>(n, c). n \<noteq> target_column_name) test_df) =
       Inr (obj, hstack sp (feature_blocks rt Tn Tc Xn Xc)) \<and>
     np_c (hstack sp (feature_blocks rt Tn Tc Tn Tc)) y_train = Inr train_arr \<and>
     np_c (hstack sp (feature_blocks rt Tn Tc Xn Xc)) y_test = Inr test_arr"
proof -
  let ?pre = preprocessor
  from assms obtain train_df test_df y_train y_test obj1 M1 obj2 M2 where
    r1: "read_csv fs train_path = Inr train_df" and r2: "read_csv fs test_path = Inr test_df"
    and g1: "map_of train_df target_column_name = Some y_train"
    and g2: "map_of test_df target_column_name = Some y_test"
    and ft: "fit_transform rt ?pre (filter (\<lambda>(n, c). n \<noteq> target_column_name) train_df) = Inr (obj1, M1)"
    and tr: "transform rt obj1 (filter (\<lambda>(n, c). n \<noteq> target_column_name) test_df) = Inr (obj2, M2)"
    and c1: "np_c M1 y_train = Inr train_arr" and c2: "np_c M2 y_test = Inr test_arr"
    and o: "obj = obj2" and go: "get_data_transformer_object rt = Inr preprocessor"
    unfolding transformation_steps_def
    by (auto simp: bind_eq_Inr at_line_eq_Inr drop_columns_Inr getitem_Inr get_object_Inr)
  from ft obtain Tn Tc sp where
    s1: "select_columns train_df numerical_columns = Inr Tn"
    and s2: "select_columns train_df categorical_columns = Inr Tc"
    and p1: "\<exists>B. pipeline_fit_transform rt num_pipeline Tn = Inr (num_state rt Tn, B)"
    and p2: "\<exists>B. pipeline_fit_transform rt cat_pipeline Tc = Inr (cat_state rt Tc, B)"
    and sd: "sparse_decision (feature_blocks rt Tn Tc Tn Tc) = Inr sp"
    and o1: "obj1 = fitted_on rt Tn Tc sp" and m1: "M1 = hstack sp (feature_blocks rt Tn Tc Tn Tc)"
    unfolding fit_transform_preprocessor select_features_numerical select_features_categorical
    by blast
  from tr obtain Xn Xc where
    t1: "select_columns test_df numerical_columns = Inr Xn"
    and t2: "select_columns test_df categorical_columns = Inr Xc"
    and q1: "\<exists>B. pipeline_transform rt (num_state rt Tn) Xn = Inr B"
    and q2: "\<exists>B. pipeline_transform rt (cat_state rt Tc) Xc = Inr B"
    and o2: "obj2 = fitted_on rt Tn Tc sp" and m2: "M2 = hstack sp (feature_blocks rt Tn Tc Xn Xc)"
    unfolding o1 transform_preprocessor select_features_numerical select_features_categorical
    by blast
  show ?thesis
    using go r1 r2 g1 g2 s1 s2 t1 t2 p1 p2 q1 q2 sd ft tr c1 c2 o o1 o2 m1 m2 by blast
qed

lemma hstack_feature_blocks:
  "hstack sp (feature_blocks rt Tn Tc Xn Xc) =
     (if sp then csr_matrix (rows_of (feature_columns rt Tn Tc Xn Xc))
      else ndarray (rows_of (feature_columns rt Tn Tc Xn Xc)))"
  by (simp add: hstack_def feature_blocks_def feature_columns_def)

lemma card_observed_le:
  "rectangular 1 Tc \<Longrightarrow>
   (\<Sum>t\<leftarrow>Tc. card (set (observed t))) \<le> length (filter (\<lambda>t. observed t \<noteq> []) Tc)"
proof (induction Tc)
  case Nil
  then show ?case by simp
next
  case (Cons t Tc)
  then have "length t = 1" by simp
  then have "length (observed t) \<le> 1" unfolding observed_def
    by (metis length_filter_le)
  then have "card (set (observed t)) \<le> (if observed t = [] then 0 else 1)"
    using card_length [of "observed t"] by (auto split: if_splits)
  with Cons show ?case by (auto split: if_splits)
qed

lemma num_fit_kept:
  "pipeline_fit_transform rt num_pipeline Tn = Inr (st, B) \<Longrightarrow>
   Tn \<noteq> [] \<and> n_samples Tn \<noteq> 0 \<and> list_ex (\<lambda>t. scores rt t \<noteq> []) Tn"
  using imputed_columns_empty [of Tn Tn]
  by (auto simp: num_fit_transform_Inr list_ex_iff list_all_iff simp del: pipeline_fit_transform.simps)

lemma np_c_dense:
  "np_c (ndarray M) y = Inr arr \<longleftrightarrow> length M = length y \<and> arr = with_target M y"
  by (auto simp: np_c_def with_target_def)

lemma np_c_sparse: "np_c (csr_matrix M) y = Inr arr \<Longrightarrow> length y = 1"
  by (auto simp: np_c_def split: list.splits)

lemma steps_dense:
  assumes "transformation_steps rt fs train_path test_path = Inr (train_arr, test_arr, obj)"
  shows "\<exists>train_df test_df Tn Tc Xn Xc y_train y_test.
     read_csv fs train_path = Inr train_df \<and> read_csv fs test_path = Inr test_df \<and>
     map_of train_df target_column_name = Some y_train \<and>
     map_of test_df target_column_name = Some y_test \<and>
     select_columns train_df numerical_columns = Inr Tn \<and>
     select_columns train_df categorical_columns = Inr Tc \<and>
     select_columns test_df numerical_columns = Inr Xn \<and>
     select_columns test_df categorical_columns = Inr Xc \<and>
     (\<exists>B. pipeline_transform rt (cat_state rt Tc) Xc = Inr B) \<and>
     obj = fitted_on rt Tn Tc False \<and>
     fit_transform rt preprocessor
       (filter (\<lambda>(n, c). n \<noteq> target_column_name) train_df) =
       Inr (obj, ndarray (rows_of (feature_columns rt Tn Tc Tn Tc))) \<and>
     transform rt obj (filter (\<lambda>(n, c). n \<noteq> target_column_name) test_df) =
       Inr (obj, ndarray (rows_of (feature_columns rt Tn Tc Xn Xc))) \<and>
     length (rows_of (feature_columns rt Tn Tc Tn Tc)) = length y_train \<and>
     length (rows_of (feature_columns rt Tn Tc Xn Xc)) = length y_test \<and>
     train_arr = with_target (rows_of (feature_columns rt Tn Tc Tn Tc)) y_train \<and>
     test_arr = with_target (rows_of (feature_columns rt Tn Tc Xn Xc)) y_test"
proof -
  from steps_success [OF assms] obtain train_df test_df Tn Tc Xn Xc y_train y_test sp where
    r1: "read_csv fs train_path = Inr train_df" and r2: "read_csv fs test_path = Inr test_df"
    and g1: "map_of train_df target_column_name = Some y_train"
    and g2: "map_of test_df target_column_name = Some y_test"
    and s1: "select_columns train_df numerical_columns = Inr Tn"
    and s2: "select_columns train_df categorical_columns = Inr Tc"
    and t1: "select_columns test_df numerical_columns = Inr Xn"
    and t2: "select_columns test_df categorical_columns = Inr Xc"
    and p1: "\<exists>B. pipeline_fit_transform rt num_pipeline Tn = Inr (num_state rt Tn, B)"
    and q2: "\<exists>B. pipeline_transform rt (cat_state rt Tc) Xc = Inr B"
    and sd: "sparse_decision (feature_blocks rt Tn Tc Tn Tc) = Inr sp"
    and o: "obj = fitted_on rt Tn Tc sp"
    and ft: "fit_transform rt preprocessor
       (filter (\<lambda>(n, c). n \<noteq> target_column_name) train_df) =
       Inr (obj, hstack sp (feature_blocks rt Tn Tc Tn Tc))"
    and tr: "transform rt obj (filter (\<lambda>(n, c). n \<noteq> target_column_name) test_df) =
       Inr (obj, hstack sp (feature_blocks rt Tn Tc Xn Xc))"
    and c1: "np_c (hstack sp (feature_blocks rt Tn Tc Tn Tc)) y_train = Inr train_arr"
    and c2: "np_c (hstack sp (feature_blocks rt Tn Tc Xn Xc)) y_test = Inr test_arr"
    by blast
  let ?n = "n_rows train_df"
  have wf1: "wf_dataframe train_df" by (rule read_csv_wf [OF r1])
  have rn: "rectangular ?n Tn" and rc: "rectangular ?n Tc"
    using select_columns_wf [OF wf1 s1] select_columns_wf [OF wf1 s2] by simp_all
  have ly: "length y_train = ?n" using wf_column [OF wf1 g1] by simp
  from p1 have kept: "Tn \<noteq> []" "n_samples Tn \<noteq> 0" "list_ex (\<lambda>t. scores rt t \<noteq> []) Tn"
    using num_fit_kept by blast+
  have n: "0 < ?n" using rectangular_n_samples [OF rn kept(1)] kept(2) by simp
  have sp_eq: "sp = (10 * (length (filter (\<lambda>t. scores rt t \<noteq> []) Tn) + length (filter (\<lambda>t. observed t \<noteq> []) Tc))
          < 3 * (length (filter (\<lambda>t. scores rt t \<noteq> []) Tn) + (\<Sum>t\<leftarrow>Tc. card (set (observed t)))))"
    using sparse_decision_blocks [OF refl refl rn rc known_categories_refl n kept(3)] sd by simp
  have dense: "\<not> sp"
  proof
    assume sp
    with c1 have "length y_train = 1" by (auto simp: hstack_feature_blocks dest: np_c_sparse)
    with ly rc have "rectangular 1 Tc" by simp
    from card_observed_le [OF this] sp_eq \<open>sp\<close> show False by simp
  qed
  from c1 c2 dense have
    "length (rows_of (feature_columns rt Tn Tc Tn Tc)) = length y_train"
    "train_arr = with_target (rows_of (feature_columns rt Tn Tc Tn Tc)) y_train"
    "length (rows_of (feature_columns rt Tn Tc Xn Xc)) = length y_test"
    "test_arr = with_target (rows_of (feature_columns rt Tn Tc Xn Xc)) y_test"
    by (simp_all add: hstack_feature_blocks np_c_dense del: length_rows_of)
  with r1 r2 g1 g2 s1 s2 t1 t2 q2 o ft tr dense show ?thesis
    by (simp add: hstack_feature_blocks del: length_rows_of)
qed

subsection \<open>Rows with the target appended\<close>

lemma length_with_target: "length M = length y \<Longrightarrow> length (with_target M y) = length y"
  by (simp add: with_target_def)

lemma with_target_nth:
  "length M = length y \<Longrightarrow> i < length y \<Longrightarrow>
   with_target M y ! i = map (\<lambda>x. Val (cell_of x)) (M ! i) @ [Val (to_float64 (y ! i))]"
  by (simp add: with_target_def)

lemma with_target_row:
  "row \<in> set (with_target M y) \<Longrightarrow> \<exists>r\<in>set M. length row = length r + 1"
  by (auto simp: with_target_def dest!: set_zip_leftD)

lemma length_feature_columns:
  "length Tn = length Xn \<Longrightarrow> length Tc = length Xc \<Longrightarrow>
   length (feature_columns rt Tn Tc Xn Xc) =
     length (filter (\<lambda>t. scores rt t \<noteq> []) Tn) + (\<Sum>t\<leftarrow>Tc. card (set (observed t)))"
  by (simp add: feature_columns_def length_numeric_features length_categorical_features)

lemma select_columns_same_length:
  "select_columns df names = Inr cols \<Longrightarrow> select_columns df' names = Inr cols' \<Longrightarrow>
   length cols = length cols'"
  by (simp add: select_columns_length)

lemma try_block_Inr:
  "try_block rt fs train_path test_path = (Inr (train_arr, test_arr, path), fs') \<longleftrightarrow>
     (\<exists>obj. transformation_steps rt fs train_path test_path = Inr (train_arr, test_arr, obj) \<and>
            writable fs preprocessor_obj_file_path \<and> path = preprocessor_obj_file_path \<and>
            fs' = fs\<lparr>files := (files fs)(preprocessor_obj_file_path \<mapsto> Pickle obj)\<rparr>)"
  by (auto simp: try_block_def save_object_def at_line_def split: sum.splits prod.splits)

lemma initiate_Inr:
  "initiate_data_transformation rt fs train_path test_path =
     (Inr (train_arr, test_arr, path), fs') \<longleftrightarrow>
     (\<exists>obj. transformation_steps rt fs train_path test_path = Inr (train_arr, test_arr, obj) \<and>
            writable fs preprocessor_obj_file_path \<and> path = preprocessor_obj_file_path \<and>
            fs' = fs\<lparr>files := (files fs)(preprocessor_obj_file_path \<mapsto> Pickle obj)\<rparr>)"
  unfolding try_block_Inr [symmetric]
  by (cases "try_block rt fs train_path test_path")
    (auto simp: initiate_data_transformation_def try_except_eq_Inr)

lemma run_success:
  "fst (initiate_data_transformation rt fs train_path test_path) = Inr (train_arr, test_arr, path) \<Longrightarrow>
   \<exists>obj. transformation_steps rt fs train_path test_path = Inr (train_arr, test_arr, obj)"
  using initiate_Inr [of rt fs train_path test_path train_arr test_arr path
      "snd (initiate_data_transformation rt fs train_path test_path)"]
  by (cases "initiate_data_transformation rt fs train_path test_path") auto

subsection \<open>Unknown categories\<close>

lemma select_columns_nth:
  "select_columns df names = Inr cols \<Longrightarrow> i < length names \<Longrightarrow>
   map_of df (names ! i) = Some (cols ! i)"
proof (induction names arbitrary: cols i)
  case Nil
  then show ?case by simp
next
  case (Cons name names)
  then show ?case by (cases i) (auto simp: select_columns_Cons)
qed

lemma known_categories_nth:
  "known_categories T X \<Longrightarrow> i < length T \<Longrightarrow> i < length X \<Longrightarrow>
   observed (T ! i) = [] \<or> set (observed (X ! i)) \<subseteq> set (observed (T ! i))"
  unfolding known_categories_def list_all_length by force

lemma unseen_not_known:
  assumes "select_columns train_df categorical_columns = Inr Tc"
    and "select_columns test_df categorical_columns = Inr Xc"
    and "name \<in> set categorical_columns"
    and "map_of train_df name = Some t" and "map_of test_df name = Some x"
    and "observed t \<noteq> []" and "v \<in> set (observed x)" and "v \<notin> set (observed t)"
  shows "\<not> known_categories Tc Xc"
proof
  assume k: "known_categories Tc Xc"
  from assms(3) obtain i where i: "i < length categorical_columns" "categorical_columns ! i = name"
    by (auto simp: in_set_conv_nth)
  have l1: "length Tc = length categorical_columns" and l2: "length Xc = length categorical_columns"
    using assms(1,2) by (simp_all add: select_columns_length)
  have "Tc ! i = t" "Xc ! i = x"
    using select_columns_nth [OF assms(1) i(1)] select_columns_nth [OF assms(2) i(1)] i(2) assms(4,5)
    by simp_all
  with known_categories_nth [OF k, of i] i l1 l2 assms(6,7,8) show False by auto
qed

lemma transform_known:
  assumes "transformation_steps rt fs train_path test_path = Inr (train_arr, test_arr, obj)"
    and "read_csv fs train_path = Inr train_df" and "read_csv fs test_path = Inr test_df"
    and "select_columns train_df categorical_columns = Inr Tc"
    and "select_columns test_df categorical_columns = Inr Xc"
  shows "known_categories Tc Xc"
proof -
  from steps_success [OF assms(1)] assms(2-5) have "\<exists>B. pipeline_transform rt (cat_state rt Tc) Xc = Inr B"
    by auto
  then show ?thesis by (auto simp: cat_transform_Inr simp del: pipeline_transform.simps)
qed

lemma fit_and_transform_known:
  assumes "fit_transform rt preprocessor
       (filter (\<lambda>(n, c). n \<noteq> target_column_name) train_df) = Inr (obj, M)"
    and "transform rt obj (filter (\<lambda>(n, c). n \<noteq> target_column_name) test_df) = Inr (obj', M')"
    and "select_columns train_df categorical_columns = Inr Tc"
    and "select_columns test_df categorical_columns = Inr Xc"
  shows "known_categories Tc Xc"
proof -
  from assms(1) assms(3) obtain Tn sp where o: "obj = fitted_on rt Tn Tc sp"
    unfolding fit_transform_preprocessor select_features_numerical select_features_categorical
    by auto
  from assms(2) assms(4) have "\<exists>B. pipeline_transform rt (cat_state rt Tc) Xc = Inr B"
    unfolding o transform_preprocessor select_features_numerical select_features_categorical
    by auto
  then show ?thesis by (auto simp: cat_transform_Inr simp del: pipeline_transform.simps)
qed

lemma steps_failure_line:
  assumes "transformation_steps rt fs train_path test_path = Inl (cause, line)"
  shows "line \<le> 97 \<or>
     (\<exists>train_df test_df obj M obj' M'.
        read_csv fs train_path = Inr train_df \<and> read_csv fs test_path = Inr test_df \<and>
        fit_transform rt preprocessor
          (filter (\<lambda>(n, c). n \<noteq> target_column_name) train_df) = Inr (obj, M) \<and>
        transform rt obj (filter (\<lambda>(n, c). n \<noteq> target_column_name) test_df) = Inr (obj', M'))"
  using assms unfolding transformation_steps_def
  by (auto simp: bind_eq_Inl bind_eq_Inr at_line_eq_Inl at_line_eq_Inr drop_columns_Inr
      get_object_Inr split: prod.splits)

subsection \<open>The conditions of a successful run\<close>

lemma list_ex_not_all: "list_ex P xs \<longleftrightarrow> \<not> list_all (\<lambda>x. \<not> P x) xs"
  by (auto simp: list_ex_iff list_all_iff)

lemma list_ex_nonempty: "list_ex P xs \<Longrightarrow> xs \<noteq> []"
  by auto

lemma num_fit_iff:
  assumes "rectangular n Tn" and "0 < n"
  shows "(\<exists>B. pipeline_fit_transform rt num_pipeline Tn = Inr (num_state rt Tn, B)) \<longleftrightarrow>
     list_all (numeric rt) Tn \<and> list_ex (\<lambda>t. scores rt t \<noteq> []) Tn \<and>
     all_finite (imputed_columns rt Tn Tn)"
proof (cases "list_ex (\<lambda>t. scores rt t \<noteq> []) Tn")
  case True
  then have ne: "Tn \<noteq> []" by auto
  have i: "imputed_columns rt Tn Tn \<noteq> []"
    using imputed_columns_empty [OF refl, of rt Tn] True by (simp add: list_ex_not_all)
  have "n_samples Tn = n" "n_samples (imputed_columns rt Tn Tn) = n"
    using rectangular_n_samples [OF assms(1) ne]
      rectangular_n_samples [OF rectangular_imputed_columns [OF refl assms(1)] i] by simp_all
  with assms ne i True show ?thesis
    by (simp add: num_fit_transform_Inr del: pipeline_fit_transform.simps)
next
  case False
  then have "imputed_columns rt Tn Tn = []"
    using imputed_columns_empty [OF refl, of rt Tn] by (simp add: list_ex_not_all)
  with False show ?thesis
    by (simp add: num_fit_transform_Inr del: pipeline_fit_transform.simps)
qed

lemma num_transform_iff:
  assumes "length Xn = length Tn" and "rectangular m Xn" and "0 < m"
    and "list_ex (\<lambda>t. scores rt t \<noteq> []) Tn"
  shows "(\<exists>B. pipeline_transform rt (num_state rt Tn) Xn = Inr B) \<longleftrightarrow>
     list_all (numeric rt) Xn \<and> all_finite (imputed_columns rt Tn Xn)"
proof -
  have len: "length Tn = length Xn" using assms(1) by simp
  have ne: "Xn \<noteq> []" using assms(1,4) by auto
  have i: "imputed_columns rt Tn Xn \<noteq> []"
    using imputed_columns_empty [OF len, of rt] assms(4) by (simp add: list_ex_not_all)
  have "n_samples Xn = m" "n_samples (imputed_columns rt Tn Xn) = m"
    using rectangular_n_samples [OF assms(2) ne]
      rectangular_n_samples [OF rectangular_imputed_columns [OF len assms(2)] i] by simp_all
  with assms ne i show ?thesis
    by (simp add: num_transform_Inr)
qed

lemma cat_fit_iff:
  assumes "rectangular n Tc" and "0 < n" and "list_all homogeneous Tc"
  shows "(\<exists>B. pipeline_fit_transform rt cat_pipeline Tc = Inr (cat_state rt Tc, B)) \<longleftrightarrow>
     accepts_infinity Tc Tc \<and> list_ex (\<lambda>t. observed t \<noteq> []) Tc"
proof (cases "list_ex (\<lambda>t. observed t \<noteq> []) Tc")
  case True
  then have ne: "Tc \<noteq> []" by auto
  have i: "mode_imputed Tc Tc \<noteq> []"
    using mode_imputed_empty [OF refl, of Tc] True by (simp add: list_ex_not_all)
  have e: "encoded Tc Tc \<noteq> []"
    using encoded_empty [OF refl, of Tc] True by (simp add: list_ex_not_all)
  have "n_samples Tc = n" "n_samples (mode_imputed Tc Tc) = n" "n_samples (encoded Tc Tc) = n"
    using rectangular_n_samples [OF assms(1) ne]
      rectangular_n_samples [OF rectangular_mode_imputed [OF refl assms(1)] i]
      rectangular_n_samples [OF rectangular_encoded [OF refl assms(1)] e] by simp_all
  with assms ne i e True show ?thesis
    by (simp add: cat_fit_transform_Inr del: pipeline_fit_transform.simps)
next
  case False
  then have "mode_imputed Tc Tc = []"
    using mode_imputed_empty [OF refl, of Tc] by (simp add: list_ex_not_all)
  with False show ?thesis
    by (simp add: cat_fit_transform_Inr del: pipeline_fit_transform.simps)
qed

lemma cat_transform_iff:
  assumes "length Xc = length Tc" and "rectangular m Xc" and "0 < m"
    and "list_ex (\<lambda>t. observed t \<noteq> []) Tc"
  shows "(\<exists>B. pipeline_transform rt (cat_state rt Tc) Xc = Inr B) \<longleftrightarrow>
     accepts_infinity Tc Xc \<and> known_categories Tc Xc"
proof -
  have len: "length Tc = length Xc" using assms(1) by simp
  have ne: "Xc \<noteq> []" using assms(1,4) by auto
  have i: "mode_imputed Tc Xc \<noteq> []"
    using mode_imputed_empty [OF len] assms(4) by (simp add: list_ex_not_all)
  have e: "encoded Tc Xc \<noteq> []"
    using encoded_empty [OF len] assms(4) by (simp add: list_ex_not_all)
  have "n_samples Xc = m" "n_samples (mode_imputed Tc Xc) = m" "n_samples (encoded Tc Xc) = m"
    using rectangular_n_samples [OF assms(2) ne]
      rectangular_n_samples [OF rectangular_mode_imputed [OF len assms(2)] i]
      rectangular_n_samples [OF rectangular_encoded [OF len assms(2)] e] by simp_all
  with assms ne i e show ?thesis
    by (simp add: cat_transform_Inr)
qed

lemma pipelines_need_rows:
  "pipeline_fit_transform rt num_pipeline Tn = Inr (st, B) \<Longrightarrow> rectangular n Tn \<Longrightarrow> 0 < n"
  using rectangular_n_samples [of n Tn]
  by (auto simp: num_fit_transform_Inr simp del: pipeline_fit_transform.simps)

lemma transform_needs_rows:
  "pipeline_transform rt (num_state rt Tn) Xn = Inr B \<Longrightarrow> rectangular m Xn \<Longrightarrow> 0 < m"
  using rectangular_n_samples [of m Xn]
  by (auto simp: num_transform_Inr)

lemma feature_columns_shape:
  assumes "length Tn = length Xn" and "length Tc = length Xc"
    and "rectangular m Xn" and "rectangular m Xc" and "list_ex (\<lambda>t. scores rt t \<noteq> []) Tn"
  shows "length (rows_of (feature_columns rt Tn Tc Xn Xc)) = m"
proof -
  have "filter (\<lambda>t. scores rt t \<noteq> []) Tn \<noteq> []"
    using assms(5) by (auto simp: list_ex_iff filter_empty_conv)
  then have "length (concat (map2 (numeric_feature rt) Tn Xn)) \<noteq> 0"
    unfolding length_numeric_features [OF assms(1)] by simp
  then have "concat (map2 (numeric_feature rt) Tn Xn) \<noteq> []"
    by (metis list.size(3))
  then have ne: "feature_columns rt Tn Tc Xn Xc \<noteq> []" by (simp add: feature_columns_def)
  have "rectangular m (feature_columns rt Tn Tc Xn Xc)"
    using rectangular_numeric_features [OF assms(1,3)]
      rectangular_categorical_features [OF assms(2,4)]
    by (simp add: feature_columns_def)
  from rectangular_n_samples [OF this ne] show ?thesis by simp
qed

lemma map_of_in_names: "map_of df name = Some c \<Longrightarrow> name \<in> set (map fst df)"
  by (auto dest!: map_of_SomeD intro: rev_image_eqI)

lemma length_numerical [simp]: "length numerical_columns = 2"
  by (simp add: numerical_columns_def)

lemma length_categorical [simp]: "length categorical_columns = 5"
  by (simp add: categorical_columns_def)

text \<open>
  Fitting on the features of a table read from a file, in terms of its columns.
\<close>

lemma fit_iff:
  assumes wf: "wf_dataframe train_df"
    and s1: "select_columns train_df numerical_columns = Inr Tn"
    and s2: "select_columns train_df categorical_columns = Inr Tc"
  shows "fit_transform rt preprocessor (filter (\<lambda>(n, c). n \<noteq> target_column_name) train_df) =
           Inr (obj, M) \<longleftrightarrow>
         0 < n_rows train_df \<and> fit_conditions rt Tn Tc \<and>
         obj = fitted_on rt Tn Tc (\<not> dense_output rt Tn Tc) \<and>
         M = hstack (\<not> dense_output rt Tn Tc) (feature_blocks rt Tn Tc Tn Tc)"
proof -
  have rn: "rectangular (n_rows train_df) Tn" and rc: "rectangular (n_rows train_df) Tc"
    and hc: "list_all homogeneous Tc"
    using select_columns_wf [OF wf s1] select_columns_wf [OF wf s2] by simp_all
  have sd: "sparse_decision (feature_blocks rt Tn Tc Tn Tc) = Inr (\<not> dense_output rt Tn Tc)"
    if "0 < n_rows train_df" "list_ex (\<lambda>t. scores rt t \<noteq> []) Tn"
    using sparse_decision_blocks [OF refl refl rn rc known_categories_refl that]
    by (simp add: dense_output_def not_le)
  show ?thesis
  proof (cases "0 < n_rows train_df")
    case True
    show ?thesis
      unfolding fit_transform_preprocessor select_features_numerical select_features_categorical
        s1 s2
      using num_fit_iff [OF rn True, of rt] cat_fit_iff [OF rc True hc, of rt] sd [OF True] True
      by (auto simp: fit_conditions_def simp del: pipeline_fit_transform.simps)
  next
    case False
    have "\<not> (\<exists>B. pipeline_fit_transform rt num_pipeline Tn = Inr (num_state rt Tn, B))"
    proof
      assume "\<exists>B. pipeline_fit_transform rt num_pipeline Tn = Inr (num_state rt Tn, B)"
      then obtain B where "pipeline_fit_transform rt num_pipeline Tn = Inr (num_state rt Tn, B)" ..
      from pipelines_need_rows [OF this rn] False show False by simp
    qed
    with False show ?thesis
      unfolding fit_transform_preprocessor select_features_numerical select_features_categorical
        s1 s2
      by (auto simp del: pipeline_fit_transform.simps)
  qed
qed

lemma transform_iff:
  assumes wf: "wf_dataframe test_df"
    and t1: "select_columns test_df numerical_columns = Inr Xn"
    and t2: "select_columns test_df categorical_columns = Inr Xc"
    and ln: "length Tn = 2" and lc: "length Tc = 5"
    and en: "list_ex (\<lambda>t. scores rt t \<noteq> []) Tn" and ec: "list_ex (\<lambda>t. observed t \<noteq> []) Tc"
  shows "transform rt (fitted_on rt Tn Tc sp) (filter (\<lambda>(n, c). n \<noteq> target_column_name) test_df) =
           Inr (obj, M) \<longleftrightarrow>
         0 < n_rows test_df \<and> transform_conditions rt Tn Tc Xn Xc \<and>
         obj = fitted_on rt Tn Tc sp \<and> M = hstack sp (feature_blocks rt Tn Tc Xn Xc)"
proof -
  have lxn: "length Xn = length Tn" and lxc: "length Xc = length Tc"
    using select_columns_length [OF t1] select_columns_length [OF t2] ln lc by simp_all
  have rn: "rectangular (n_rows test_df) Xn" and rc: "rectangular (n_rows test_df) Xc"
    using select_columns_wf [OF wf t1] select_columns_wf [OF wf t2] by simp_all
  show ?thesis
  proof (cases "0 < n_rows test_df")
    case True
    show ?thesis
      unfolding transform_preprocessor select_features_numerical select_features_categorical
        t1 t2
      using num_transform_iff [OF lxn rn True en] cat_transform_iff [OF lxc rc True ec] True
      by (auto simp: transform_conditions_def)
  next
    case False
    have "\<not> (\<exists>B. pipeline_transform rt (num_state rt Tn) Xn = Inr B)"
    proof
      assume "\<exists>B. pipeline_transform rt (num_state rt Tn) Xn = Inr B"
      then obtain B where "pipeline_transform rt (num_state rt Tn) Xn = Inr B" ..
      from transform_needs_rows [OF this rn] False show False by simp
    qed
    with False show ?thesis
      unfolding transform_preprocessor select_features_numerical select_features_categorical
        t1 t2
      by auto
  qed
qed

lemma fitted_on_inject: "fitted_on rt Tn Tc sp = fitted_on rt Tn Tc sp' \<longleftrightarrow> sp = sp'"
  by (auto simp: fitted_on_def)

lemma select_columns_eq_length:
  "select_columns df numerical_columns = Inr Tn \<Longrightarrow> length Tn = 2"
  "select_columns df categorical_columns = Inr Tc \<Longrightarrow> length Tc = 5"
  by (auto dest: select_columns_length)

lemma fit_conditions_kept:
  "fit_conditions rt Tn Tc \<Longrightarrow>
   list_ex (\<lambda>t. scores rt t \<noteq> []) Tn \<and> list_ex (\<lambda>t. observed t \<noteq> []) Tc"
  by (simp add: fit_conditions_def)

lemma drop_target:
  "map_of df target_column_name = Some y \<Longrightarrow>
   drop_columns [target_column_name] df = Inr (filter (\<lambda>(n, c). n \<noteq> target_column_name) df)"
  using map_of_in_names [of df target_column_name y] by (simp add: drop_columns_Inr)

text \<open>
  The steps of the \<^verbatim>\<open>try\<close> block on two tables read from files, in terms of their columns.
\<close>

lemma valid_steps:
  assumes go: "get_data_transformer_object rt = Inr preprocessor"
    and r1: "read_csv fs train_path = Inr train_df" and r2: "read_csv fs test_path = Inr test_df"
    and g1: "map_of train_df target_column_name = Some y_train"
    and g2: "map_of test_df target_column_name = Some y_test"
    and s1: "select_columns train_df numerical_columns = Inr Tn"
    and s2: "select_columns train_df categorical_columns = Inr Tc"
    and t1: "select_columns test_df numerical_columns = Inr Xn"
    and t2: "select_columns test_df categorical_columns = Inr Xc"
    and n: "0 < n_rows train_df" and m: "0 < n_rows test_df"
    and fc: "fit_conditions rt Tn Tc" and tc: "transform_conditions rt Tn Tc Xn Xc"
    and d: "dense_output rt Tn Tc"
  shows "transformation_steps rt fs train_path test_path =
     Inr (with_target (rows_of (feature_columns rt Tn Tc Tn Tc)) y_train,
          with_target (rows_of (feature_columns rt Tn Tc Xn Xc)) y_test,
          fitted_on rt Tn Tc False)"
proof -
  have wf1: "wf_dataframe train_df" and wf2: "wf_dataframe test_df"
    using read_csv_wf [OF r1] read_csv_wf [OF r2] .
  have ln: "length Tn = 2" and lc: "length Tc = 5" and lxn: "length Xn = 2" and lxc: "length Xc = 5"
    using select_columns_length [OF s1] select_columns_length [OF s2]
      select_columns_length [OF t1] select_columns_length [OF t2] by simp_all
  from fit_conditions_kept [OF fc] have en: "list_ex (\<lambda>t. scores rt t \<noteq> []) Tn"
    and ec: "list_ex (\<lambda>t. observed t \<noteq> []) Tc" by simp_all
  have ft: "fit_transform rt preprocessor
       (filter (\<lambda>(n, c). n \<noteq> target_column_name) train_df) =
     Inr (fitted_on rt Tn Tc False, ndarray (rows_of (feature_columns rt Tn Tc Tn Tc)))"
    unfolding fit_iff [OF wf1 s1 s2] using n fc d by (simp add: hstack_feature_blocks)
  have tr: "transform rt (fitted_on rt Tn Tc False)
       (filter (\<lambda>(n, c). n \<noteq> target_column_name) test_df) =
     Inr (fitted_on rt Tn Tc False, ndarray (rows_of (feature_columns rt Tn Tc Xn Xc)))"
    unfolding transform_iff [OF wf2 t1 t2 ln lc en ec] using m tc
    by (simp add: hstack_feature_blocks)
  have rows1: "length (rows_of (feature_columns rt Tn Tc Tn Tc)) = length y_train"
    using feature_columns_shape [of Tn Tn Tc Tc "n_rows train_df", OF refl refl _ _ en]
      select_columns_wf [OF wf1 s1] select_columns_wf [OF wf1 s2] wf_column [OF wf1 g1]
    by (simp del: length_rows_of)
  have rows2: "length (rows_of (feature_columns rt Tn Tc Xn Xc)) = length y_test"
    using feature_columns_shape [of Tn Xn Tc Xc "n_rows test_df", OF _ _ _ _ en]
      select_columns_wf [OF wf2 t1] select_columns_wf [OF wf2 t2] wf_column [OF wf2 g2]
      ln lc lxn lxc
    by (simp del: length_rows_of)
  have c1: "np_c (ndarray (rows_of (feature_columns rt Tn Tc Tn Tc))) y_train =
      Inr (with_target (rows_of (feature_columns rt Tn Tc Tn Tc)) y_train)"
    using rows1 by (simp add: np_c_dense del: length_rows_of)
  have c2: "np_c (ndarray (rows_of (feature_columns rt Tn Tc Xn Xc))) y_test =
      Inr (with_target (rows_of (feature_columns rt Tn Tc Xn Xc)) y_test)"
    using rows2 by (simp add: np_c_dense del: length_rows_of)
  show ?thesis
    unfolding transformation_steps_def
    by (simp add: go r1 r2 drop_target [OF g1] drop_target [OF g2] g1 g2 getitem_def ft tr c1 c2
        at_line_def)
qed

lemma steps_conditions:
  assumes st: "transformation_steps rt fs train_path test_path = Inr (train_arr, test_arr, obj)"
    and r1: "read_csv fs train_path = Inr train_df" and r2: "read_csv fs test_path = Inr test_df"
    and s1: "select_columns train_df numerical_columns = Inr Tn"
    and s2: "select_columns train_df categorical_columns = Inr Tc"
    and t1: "select_columns test_df numerical_columns = Inr Xn"
    and t2: "select_columns test_df categorical_columns = Inr Xc"
  shows "get_data_transformer_object rt = Inr preprocessor \<and>
     0 < n_rows train_df \<and> 0 < n_rows test_df \<and>
     fit_conditions rt Tn Tc \<and> transform_conditions rt Tn Tc Xn Xc \<and> dense_output rt Tn Tc \<and>
     (\<exists>y_train y_test.
        map_of train_df target_column_name = Some y_train \<and>
        map_of test_df target_column_name = Some y_test \<and>
        train_arr = with_target (rows_of (feature_columns rt Tn Tc Tn Tc)) y_train \<and>
        test_arr = with_target (rows_of (feature_columns rt Tn Tc Xn Xc)) y_test) \<and>
     obj = fitted_on rt Tn Tc False"
proof -
  have wf1: "wf_dataframe train_df" and wf2: "wf_dataframe test_df"
    using read_csv_wf [OF r1] read_csv_wf [OF r2] .
  from steps_success [OF st] have go: "get_data_transformer_object rt = Inr preprocessor"
    by blast
  from steps_dense [OF st] r1 r2 s1 s2 t1 t2 obtain y_train y_test where
    g1: "map_of train_df target_column_name = Some y_train"
    and g2: "map_of test_df target_column_name = Some y_test"
    and o: "obj = fitted_on rt Tn Tc False"
    and ft: "fit_transform rt preprocessor
       (filter (\<lambda>(n, c). n \<noteq> target_column_name) train_df) =
       Inr (obj, ndarray (rows_of (feature_columns rt Tn Tc Tn Tc)))"
    and tr: "transform rt obj (filter (\<lambda>(n, c). n \<noteq> target_column_name) test_df) =
       Inr (obj, ndarray (rows_of (feature_columns rt Tn Tc Xn Xc)))"
    and a1: "train_arr = with_target (rows_of (feature_columns rt Tn Tc Tn Tc)) y_train"
    and a2: "test_arr = with_target (rows_of (feature_columns rt Tn Tc Xn Xc)) y_test"
    by auto
  from ft [unfolded fit_iff [OF wf1 s1 s2]] o have
    n: "0 < n_rows train_df" and fc: "fit_conditions rt Tn Tc" and d: "dense_output rt Tn Tc"
    by (simp_all add: fitted_on_inject)
  have ln: "length Tn = 2" and lc: "length Tc = 5"
    using select_columns_length [OF s1] select_columns_length [OF s2] by simp_all
  from fit_conditions_kept [OF fc] have en: "list_ex (\<lambda>t. scores rt t \<noteq> []) Tn"
    and ec: "list_ex (\<lambda>t. observed t \<noteq> []) Tc" by simp_all
  from tr [unfolded o transform_iff [OF wf2 t1 t2 ln lc en ec]] have
    m: "0 < n_rows test_df" and tc: "transform_conditions rt Tn Tc Xn Xc"
    by simp_all
  show ?thesis using go n m fc tc d g1 g2 a1 a2 o by blast
qed

subsection \<open>The exception for an unknown category\<close>

lemma cat_transform_unknown:
  assumes "length Xc = length Tc" and "rectangular m Xc" and "0 < m"
    and "list_ex (\<lambda>t. observed t \<noteq> []) Tc" and "accepts_infinity Tc Xc"
    and "\<not> known_categories Tc Xc"
  shows "pipeline_transform rt (cat_state rt Tc) Xc = Inl (ValueError ''Found unknown categories'')"
proof -
  have len: "length Tc = length Xc" using assms(1) by simp
  have ne: "Xc \<noteq> []" using assms(1,4) by auto
  have i: "mode_imputed Tc Xc \<noteq> []"
    using mode_imputed_empty [OF len] assms(4) by (simp add: list_ex_not_all)
  have n1: "n_samples Xc = m" and n2: "n_samples (mode_imputed Tc Xc) = m"
    using rectangular_n_samples [OF assms(2) ne]
      rectangular_n_samples [OF rectangular_mode_imputed [OF len assms(2)] i] by simp_all
  have imp: "SimpleImputer_most_frequent_transform (map mode_statistic Tc, object_dtype Tc) Xc =
      Inr (mode_imputed Tc Xc)"
    using ne n1 assms(1,3,5) by (simp add: most_frequent_transform_Inr)
  have enc: "OneHotEncoder_transform
      (map training_categories (filter (\<lambda>t. observed t \<noteq> []) Tc)) (mode_imputed Tc Xc) =
      Inl (ValueError ''Found unknown categories'')"
    using i n2 assms(3,6) unknown_check [OF len]
    by (simp add: OneHotEncoder_transform_def check_array_def length_mode_imputed [OF len])
  show ?thesis
    by (simp add: cat_state_def imp enc)
qed

lemma unknown_steps:
  assumes go: "get_data_transformer_object rt = Inr preprocessor"
    and r1: "read_csv fs train_path = Inr train_df" and r2: "read_csv fs test_path = Inr test_df"
    and g1: "map_of train_df target_column_name = Some y_train"
    and g2: "map_of test_df target_column_name = Some y_test"
    and s1: "select_columns train_df numerical_columns = Inr Tn"
    and s2: "select_columns train_df categorical_columns = Inr Tc"
    and t1: "select_columns test_df numerical_columns = Inr Xn"
    and t2: "select_columns test_df categorical_columns = Inr Xc"
    and n: "0 < n_rows train_df" and m: "0 < n_rows test_df"
    and fc: "fit_conditions rt Tn Tc"
    and xn: "list_all (numeric rt) Xn" and xf: "all_finite (imputed_columns rt Tn Xn)"
    and xa: "accepts_infinity Tc Xc"
    and kn: "\<not> known_categories Tc Xc"
  shows "transformation_steps rt fs train_path test_path =
     Inl (ValueError ''Found unknown categories'', 97)"
proof -
  have wf1: "wf_dataframe train_df" and wf2: "wf_dataframe test_df"
    using read_csv_wf [OF r1] read_csv_wf [OF r2] .
  have ln: "length Tn = 2" and lc: "length Tc = 5" and lxn: "length Xn = 2" and lxc: "length Xc = 5"
    using select_columns_length [OF s1] select_columns_length [OF s2]
      select_columns_length [OF t1] select_columns_length [OF t2] by simp_all
  from fit_conditions_kept [OF fc] have en: "list_ex (\<lambda>t. scores rt t \<noteq> []) Tn"
    and ec: "list_ex (\<lambda>t. observed t \<noteq> []) Tc" by simp_all
  have rn: "rectangular (n_rows test_df) Xn" and rc: "rectangular (n_rows test_df) Xc"
    using select_columns_wf [OF wf2 t1] select_columns_wf [OF wf2 t2] by simp_all
  let ?sp = "\<not> dense_output rt Tn Tc"
  have ft: "fit_transform rt preprocessor
       (filter (\<lambda>(n, c). n \<noteq> target_column_name) train_df) =
     Inr (fitted_on rt Tn Tc ?sp, hstack ?sp (feature_blocks rt Tn Tc Tn Tc))"
    unfolding fit_iff [OF wf1 s1 s2] using n fc by simp
  from num_transform_iff [of Xn Tn "n_rows test_df" rt, OF _ rn m en] lxn ln xn xf obtain B where
    B: "pipeline_transform rt (num_state rt Tn) Xn = Inr B" by auto
  have cu: "pipeline_transform rt (cat_state rt Tc) Xc =
      Inl (ValueError ''Found unknown categories'')"
    using cat_transform_unknown [of Xc Tc, OF _ rc m ec xa kn] lxc lc by simp
  have tr: "transform rt (fitted_on rt Tn Tc ?sp)
      (filter (\<lambda>(n, c). n \<noteq> target_column_name) test_df) =
      Inl (ValueError ''Found unknown categories'')"
    unfolding transform_unfold select_features_numerical select_features_categorical
    by (simp add: t1 t2 B cu)
  show ?thesis
    unfolding transformation_steps_def
    by (simp add: go r1 r2 drop_target [OF g1] drop_target [OF g2] g1 g2 getitem_def ft tr
        at_line_def)
qed

subsection \<open>Columns of repeated values\<close>

lemma nums_append [simp]: "nums (xs @ ys) = nums xs @ nums ys"
  by (induction xs rule: nums.induct) simp_all

lemma strs_append [simp]: "strs (xs @ ys) = strs xs @ strs ys"
  by (induction xs rule: strs.induct) simp_all

lemma observed_append [simp]: "observed (xs @ ys) = observed xs @ observed ys"
  by (simp add: observed_def)

lemma nums_replicate_Str [simp]: "nums (replicate n (Str s)) = []"
  by (induction n) simp_all

lemma strs_replicate_Num [simp]: "strs (replicate n (Num r)) = []"
  by (induction n) simp_all

lemma nums_replicate_Num [simp]: "nums (replicate n (Num r)) = replicate n r"
  by (induction n) simp_all

lemma strs_replicate_Str [simp]: "strs (replicate n (Str s)) = replicate n s"
  by (induction n) simp_all

lemma observed_replicate_Str [simp]: "observed (replicate n (Str s)) = replicate n (Str s)"
  by (induction n) (simp_all add: observed_def)

lemma observed_replicate_Num [simp]: "observed (replicate n (Num r)) = replicate n (Num r)"
  by (induction n) (simp_all add: observed_def)

subsection \<open>The mode\<close>

lemma count_observed_Str: "count_list (observed t) (Str s) = count_list (strs t) s"
  by (induction t rule: strs.induct) (simp_all add: observed_def)

lemma count_observed_Num: "count_list (observed t) (Num r) = count_list (nums t) r"
  by (induction t rule: nums.induct) (simp_all add: observed_def)

lemma count_observed_NaN: "count_list (observed t) NaN = 0"
  by (simp add: observed_def count_list_0_iff)

lemma training_mode_most_frequent:
  assumes "observed t \<noteq> []" and "homogeneous t"
  shows "count_list (observed t) v \<le> count_list (observed t) (training_mode t)"
proof (cases "strs t = []")
  case True
  with assms(1) have n: "nums t \<noteq> []" by (simp add: observed_empty)
  have m: "training_mode t = Num (most_frequent (nums t))" using True by (simp add: training_mode_def)
  show ?thesis
  proof (cases v)
    case (Num r)
    then show ?thesis using most_frequent_is_mode [OF n] by (simp add: m count_observed_Num)
  next
    case (Str s)
    then show ?thesis using True by (simp add: count_observed_Str)
  next
    case NaN
    then show ?thesis by (simp add: count_observed_NaN)
  qed
next
  case False
  with assms(2) have n: "nums t = []" by (simp add: homogeneous_def)
  have m: "training_mode t = Str (most_frequent (strs t))" using False by (simp add: training_mode_def)
  show ?thesis
  proof (cases v)
    case (Num r)
    then show ?thesis using n by (simp add: count_observed_Num)
  next
    case (Str s)
    then show ?thesis using most_frequent_is_mode [OF False] by (simp add: m count_observed_Str)
  next
    case NaN
    then show ?thesis by (simp add: count_observed_NaN)
  qed
qed

subsection \<open>Blocks of the stacked matrix\<close>

lemma n_samples_append: "A \<noteq> [] \<Longrightarrow> n_samples (A @ B) = n_samples A"
  by (cases A) (simp_all add: n_samples_def)

lemma take_rows_of:
  "A \<noteq> [] \<Longrightarrow> map (take (length A)) (rows_of (A @ B)) = rows_of A"
  by (simp add: rows_of_def n_samples_append)

lemma drop_rows_of:
  "rectangular n A \<Longrightarrow> rectangular n B \<Longrightarrow> A \<noteq> [] \<Longrightarrow> B \<noteq> [] \<Longrightarrow>
   map (drop (length A)) (rows_of (A @ B)) = rows_of B"
  using rectangular_n_samples [of n A] rectangular_n_samples [of n B]
  by (simp add: rows_of_def n_samples_append)

lemma categorical_features_nonempty:
  assumes "length T = length X" and "list_ex (\<lambda>t. observed t \<noteq> []) T"
  shows "concat (map2 (categorical_feature rt) T X) \<noteq> []"
proof -
  have e: "encoded T T \<noteq> []" "encoded T X \<noteq> []"
    using encoded_empty [OF refl, of T] encoded_empty [OF assms(1)] assms(2)
    by (simp_all add: list_ex_not_all)
  have "length (map2 (scaled rt) (encoded T T) (encoded T X)) = length (encoded T T)"
    using length_encoded [OF assms(1)] by simp
  with e have "map2 (scaled rt) (encoded T T) (encoded T X) \<noteq> []"
    by (metis length_0_conv)
  then show ?thesis unfolding categorical_features_eq [OF assms(1), of rt] .
qed

lemma numeric_features_nonempty:
  assumes "length T = length X" and "list_ex (\<lambda>t. scores rt t \<noteq> []) T"
  shows "concat (map2 (numeric_feature rt) T X) \<noteq> []"
proof -
  have "filter (\<lambda>t. scores rt t \<noteq> []) T \<noteq> []"
    using assms(2) by (auto simp: list_ex_iff filter_empty_conv)
  then have "length (concat (map2 (numeric_feature rt) T X)) \<noteq> 0"
    unfolding length_numeric_features [OF assms(1)] by simp
  then show ?thesis by (metis list.size(3))
qed

subsection \<open>Conversion to float64\<close>

lemma float64_of_int_small: "\<bar>n\<bar> \<le> 2 ^ 53 \<Longrightarrow> float64_of_int n = of_int n"
  by (simp add: float64_of_int_def)

lemma as_float64_small: "\<bar>r\<bar> \<le> 2 ^ 53 \<Longrightarrow> as_float64 r = r"
proof -
  assume a: "\<bar>r\<bar> \<le> 2 ^ 53"
  show ?thesis
  proof (cases "r = of_int \<lfloor>r\<rfloor>")
    case True
    then have "\<bar>real_of_int \<lfloor>r\<rfloor>\<bar> \<le> 2 ^ 53" using a by simp
    then have "\<bar>\<lfloor>r\<rfloor>\<bar> \<le> 2 ^ 53"
      by (metis of_int_abs of_int_le_iff of_int_numeral of_int_power)
    with True show ?thesis by (simp add: as_float64_def float64_of_int_small)
  next
    case False
    then show ?thesis by (simp add: as_float64_def)
  qed
qed

lemma to_float64_small: "\<bar>r\<bar> \<le> 2 ^ 53 \<Longrightarrow> to_float64 (Number r) = Number r"
  by (simp add: as_float64_small)

lemma in_range_small: "\<bar>r\<bar> \<le> 2 ^ 53 \<Longrightarrow> in_range (Number r)"
  by (simp add: max_float64_def)

lemma bit_length_numeral [simp]:
  "bit_length (numeral k) = Suc (bit_length (numeral k div 2))"
  by (subst bit_length.simps) simp

lemma bit_length_0 [simp]: "bit_length 0 = 0"
  by (subst bit_length.simps) simp

lemma bit_length_1 [simp]: "bit_length (Suc 0) = Suc 0"
  by (subst bit_length.simps) simp

lemma float64_of_int_example: "float64_of_int 9007199254740993 = 9007199254740992"
  by (simp add: float64_of_int_def Let_def)

lemma as_float64_example: "as_float64 9007199254740993 = 9007199254740992"
  by (simp add: as_float64_def float64_of_int_example)

subsection \<open>The example runs\<close>

lemma less_eq_float64_simps [simp]:
  "Finite r \<le> Finite s \<longleftrightarrow> r \<le> s"
  "Finite r \<le> Infinite p \<longleftrightarrow> p"
  "Infinite p \<le> Finite s \<longleftrightarrow> \<not> p"
  "Infinite p \<le> Infinite q \<longleftrightarrow> (p \<longrightarrow> q)"
  by (simp_all add: less_eq_float64_def)

lemma less_float64_simps [simp]:
  "Finite r < Finite s \<longleftrightarrow> r < s"
  "Finite r < Infinite p \<longleftrightarrow> p"
  "Infinite p < Finite s \<longleftrightarrow> \<not> p"
  "Infinite p < Infinite q \<longleftrightarrow> (\<not> p \<and> q)"
  by (auto simp: less_float64_def)

lemmas eval_defs = read_csv_def wf_dataframe_def n_rows_def homogeneous_def drop_columns_def getitem_def
  n_samples_def check_array_def as_float_array_def most_frequent_def
  assert_all_finite_def validate_float_def scaler_input_def object_dtype_def entry_def
  SimpleImputer_median_fit_def fill_def SimpleImputer_median_transform_def most_frequent_cell_def
  SimpleImputer_most_frequent_fit_def fill_cell_def SimpleImputer_most_frequent_transform_def
  categories_of_def OneHotEncoder_fit_def indicator_def OneHotEncoder_transform_def
  StandardScaler_fit_def StandardScaler_transform_def ColumnTransformer_def
  select_columns_def total_size_def sparse_decision_def rows_of_def hstack_def fit_transform_def transform_def
  np_c_def at_line_def try_except_def construct_def
  numerical_columns_def categorical_columns_def target_column_name_def get_data_transformer_object_def
  transformation_steps_def bind_def Let_def upt_conv_Cons real_sqrt_divide power2_eq_square
  example_runtime_def median_def mean_def variance_def exact_scale_def
  as_float64_small max_float64_def

lemma example_steps:
  "transformation_steps example_runtime example_fs ''train.csv'' ''test.csv'' =
     Inr (example_train_arr, example_test_arr, example_fitted)"
  by (simp add: eval_defs example_fs_def example_train_def example_test_def
        example_fitted_def example_train_arr_def example_test_arr_def)

lemmas run_defs = initiate_data_transformation_def try_block_def save_object_def path_value

lemma example_run1:
  "initiate_data_transformation example_runtime example_fs ''train.csv'' ''test.csv'' =
     (Inr (example_train_arr, example_test_arr, ''artifacts/preprocessor.pkl''),
      example_fs\<lparr>files := (files example_fs)(''artifacts/preprocessor.pkl'' \<mapsto> Pickle example_fitted)\<rparr>)"
  by (simp add: run_defs example_steps try_except_def at_line_def)
    (simp add: example_fs_def)

lemma example_run:
  "fst (initiate_data_transformation example_runtime example_fs ''train.csv'' ''test.csv'') =
     Inr (example_train_arr, example_test_arr, ''artifacts/preprocessor.pkl'')"
  by (simp add: example_run1)

lemma example_steps2:
  "transformation_steps example_runtime example_fs2 ''train.csv'' ''test.csv'' =
     Inr (example_train_arr, example_test_arr2, example_fitted)"
  by (simp add: eval_defs example_fs2_def example_train_def example_test2_def
        example_fitted_def example_train_arr_def example_test_arr2_def)

lemma example_run2:
  "initiate_data_transformation example_runtime example_fs2 ''train.csv'' ''test.csv'' =
     (Inr (example_train_arr, example_test_arr2, ''artifacts/preprocessor.pkl''),
      example_fs2\<lparr>files := (files example_fs2)(''artifacts/preprocessor.pkl'' \<mapsto> Pickle example_fitted)\<rparr>)"
  by (simp add: run_defs example_steps2 try_except_def at_line_def)
    (simp add: example_fs2_def)

lemma empty_fs_steps:
  "transformation_steps rt empty_fs ''train.csv'' ''test.csv'' = Inl (FileReadError ''train.csv'', 76)"
  by (simp add: transformation_steps_def read_csv_def empty_fs_def at_line_def)

lemma example_transform:
  "transform example_runtime example_fitted example_test_features =
     Inr (example_fitted, example_test_matrix)"
  by (simp add: eval_defs example_test_features_def example_test_def
        example_fitted_def example_test_matrix_def)

lemma example_object: "get_data_transformer_object example_runtime = Inr preprocessor"
  by (simp add: get_object_Inr example_runtime_def)

lemma example_fit:
  "fit_transform example_runtime preprocessor example_train_features =
     Inr (example_fitted, example_train_matrix)"
  by (simp add: eval_defs preprocessor_def example_train_features_def example_train_def
        example_fitted_def example_train_matrix_def)

lemma example_select:
  "select_columns example_train_features numerical_columns =
     Inr [[Number 1, Number 3], [Number 2, Number 4]]"
  "select_columns example_train_features categorical_columns = Inr example_categorical"
  "select_columns example_test_features numerical_columns = Inr [[Number 2], [NaN]]"
  "select_columns example_test_features categorical_columns =
     Inr [[Str ''male''], [Str ''group A''], [NaN], [Str ''standard''], [Str ''none'']]"
  by (simp_all add: select_columns_def numerical_columns_def categorical_columns_def
      example_train_features_def example_test_features_def example_train_def example_test_def
      example_categorical_def)

lemma example_wf: "wf_dataframe example_train_features" "wf_dataframe example_test_features"
  by (simp_all add: wf_dataframe_def n_rows_def homogeneous_def example_train_features_def
      example_test_features_def example_train_def example_test_def max_float64_def)


lemmas full_defs = run_defs eval_defs

lemma missing_score_run:
  "fst (initiate_data_transformation example_runtime missing_score_fs ''train.csv'' ''test.csv'') =
     Inr (missing_score_train_arr, missing_score_test_arr, ''artifacts/preprocessor.pkl'')"
  by (simp add: full_defs missing_score_fs_def missing_score_train_def example_test_def
      missing_score_train_arr_def missing_score_test_arr_def)

lemma missing_lunch_run:
  "fst (initiate_data_transformation example_runtime missing_lunch_fs ''train.csv'' ''test.csv'') =
     Inr (missing_lunch_train_arr, missing_lunch_test_arr, ''artifacts/preprocessor.pkl'')"
  by (simp add: full_defs missing_lunch_fs_def missing_lunch_train_def example_test_def
      missing_lunch_train_arr_def missing_lunch_test_arr_def)

lemma large_target_run:
  "fst (initiate_data_transformation example_runtime large_target_fs ''train.csv'' ''test.csv'') =
     Inr (large_target_train_arr, example_test_arr, ''artifacts/preprocessor.pkl'')"
  by (simp add: full_defs large_target_fs_def large_target_train_def example_test_def
      large_target_train_arr_def example_test_arr_def as_float64_example)

lemma text_score_run:
  "fst (initiate_data_transformation example_runtime text_score_fs ''train.csv'' ''test.csv'') =
     Inr (text_score_train_arr, text_score_test_arr, ''artifacts/preprocessor.pkl'')"
  by (simp add: full_defs text_score_fs_def text_score_train_def example_test_def
      text_score_train_arr_def text_score_test_arr_def)


lemma steps_train_part:
  assumes "transformation_steps rt fs train_path test_path = Inr (train_arr, test_arr, obj)"
  shows "\<exists>train_df features target M.
           read_csv fs train_path = Inr train_df \<and>
           drop_columns [target_column_name] train_df = Inr features \<and>
           getitem train_df target_column_name = Inr target \<and>
           fit_transform rt preprocessor features = Inr (obj, M) \<and>
           np_c M target = Inr train_arr"
  using assms
  by (auto simp: transformation_steps_def get_object_Inr bind_eq_Inr at_line_eq_Inr
      dest!: transform_fitted)

subsection \<open>Failures of the statements\<close>












section \<open>The claims\<close>

text \<open>
  C1.  The fitted parameters are derived from the training table only.  Two runs whose
  training file reads the same, whatever their test files hold, return the same training
  array and pickle the same fitted preprocessor.
\<close>

theorem fit_uses_training_data_only:
  assumes "read_csv fs1 train_path = read_csv fs2 train_path"
    and "initiate_data_transformation rt fs1 train_path test_path1 =
           (Inr (train_arr1, test_arr1, path1), fs1')"
    and "initiate_data_transformation rt fs2 train_path test_path2 =
           (Inr (train_arr2, test_arr2, path2), fs2')"
  shows "train_arr1 = train_arr2 \<and> path1 = path2 \<and>
         (\<exists>obj. fitted obj \<noteq> None \<and> files fs1' path1 = Some (Pickle obj) \<and>
                files fs2' path2 = Some (Pickle obj))"
proof -
  from assms(2) obtain obj1 where
    s1: "transformation_steps rt fs1 train_path test_path1 = Inr (train_arr1, test_arr1, obj1)"
    and f1: "files fs1' path1 = Some (Pickle obj1)" and p1: "path1 = preprocessor_obj_file_path"
    unfolding initiate_Inr by auto
  from assms(3) obtain obj2 where
    s2: "transformation_steps rt fs2 train_path test_path2 = Inr (train_arr2, test_arr2, obj2)"
    and f2: "files fs2' path2 = Some (Pickle obj2)" and p2: "path2 = preprocessor_obj_file_path"
    unfolding initiate_Inr by auto
  from steps_train_part [OF s1] steps_train_part [OF s2] assms(1)
  have eq: "obj1 = obj2 \<and> train_arr1 = train_arr2" by auto
  from steps_train_part [OF s1] have "fitted obj1 \<noteq> None"
    by (auto dest: fit_transform_fitted)
  with eq f1 f2 p1 p2 show ?thesis by auto
qed

text \<open>
  Witness for C1: the two example file systems share the training table and differ in the
  test table; both runs succeed.
\<close>

theorem fit_uses_training_data_only_witness:
  "read_csv example_fs ''train.csv'' = read_csv example_fs2 ''train.csv'' \<and>
   example_test \<noteq> example_test2 \<and>
   fst (initiate_data_transformation example_runtime example_fs ''train.csv'' ''test.csv'') =
     Inr (example_train_arr, example_test_arr, ''artifacts/preprocessor.pkl'') \<and>
   fst (initiate_data_transformation example_runtime example_fs2 ''train.csv'' ''test.csv'') =
     Inr (example_train_arr, example_test_arr2, ''artifacts/preprocessor.pkl'') \<and>
   (\<exists>obj. fitted obj \<noteq> None \<and>
      files (snd (initiate_data_transformation example_runtime example_fs ''train.csv'' ''test.csv''))
        ''artifacts/preprocessor.pkl'' = Some (Pickle obj) \<and>
      files (snd (initiate_data_transformation example_runtime example_fs2 ''train.csv'' ''test.csv''))
        ''artifacts/preprocessor.pkl'' = Some (Pickle obj))"
proof -
  have r: "read_csv example_fs ''train.csv'' = read_csv example_fs2 ''train.csv''"
    by (simp add: read_csv_def example_fs_def example_fs2_def)
  have d: "example_test \<noteq> example_test2"
    by (simp add: example_test_def example_test2_def)
  from fit_uses_training_data_only [OF r example_run1 example_run2] r d show ?thesis
    by (simp add: example_run1 example_run2)
qed

text \<open>
  C6.  On success the method returns the triple of the training array, the test array
  and the path \<^verbatim>\<open>artifacts/preprocessor.pkl\<close>, and by then the fitted preprocessor has been
  stored at that path.
\<close>

theorem initiate_returns_path_and_pickle:
  assumes "fst (initiate_data_transformation rt fs train_path test_path) =
             Inr (train_arr, test_arr, path)"
  shows "path = ''artifacts/preprocessor.pkl'' \<and>
         (\<exists>obj. transformation_steps rt fs train_path test_path = Inr (train_arr, test_arr, obj) \<and>
                fitted obj \<noteq> None \<and>
                files (snd (initiate_data_transformation rt fs train_path test_path)) path =
                  Some (Pickle obj))"
proof -
  obtain fs' where r: "initiate_data_transformation rt fs train_path test_path =
      (Inr (train_arr, test_arr, path), fs')"
    using assms by (cases "initiate_data_transformation rt fs train_path test_path") simp
  then obtain obj where
    st: "transformation_steps rt fs train_path test_path = Inr (train_arr, test_arr, obj)"
    and p: "path = preprocessor_obj_file_path"
    and f: "fs' = fs\<lparr>files := (files fs)(preprocessor_obj_file_path \<mapsto> Pickle obj)\<rparr>"
    unfolding initiate_Inr by auto
  from steps_train_part [OF st] have "fitted obj \<noteq> None"
    by (auto dest: fit_transform_fitted)
  with st p f r show ?thesis by (simp add: path_value)
qed

text \<open>Witness for C6: the run on the example file system.\<close>

theorem initiate_returns_path_and_pickle_witness:
  "fst (initiate_data_transformation example_runtime example_fs ''train.csv'' ''test.csv'') =
     Inr (example_train_arr, example_test_arr, ''artifacts/preprocessor.pkl'') \<and>
   (\<exists>obj. transformation_steps example_runtime example_fs ''train.csv'' ''test.csv'' =
            Inr (example_train_arr, example_test_arr, obj) \<and>
          fitted obj \<noteq> None \<and>
          files (snd (initiate_data_transformation example_runtime example_fs ''train.csv'' ''test.csv''))
            ''artifacts/preprocessor.pkl'' = Some (Pickle obj))"
  using initiate_returns_path_and_pickle [OF example_run] example_run by simp



end
